theory Spec2Isabelle
  imports Main
begin

section \<open>Python values and exceptions\<close>

text \<open>
  The exceptions the modelled code can raise. A function that can raise returns the
  exception together with the object state it had reached, since Python keeps every
  mutation made before the \<^verbatim>\<open>raise\<close>.
\<close>

datatype py_error =
    AssertionError
  | KeyError string
  | IndexError
  | OverflowError
  | TypeError
  | OSError
  | RuntimeError string
  | JSONDecodeError

section \<open>The frame recorder of \<^verbatim>\<open>src/pmacFilterControlWrapper.py\<close>\<close>

text \<open>
  The module keeps the attenuation table in an \<^verbatim>\<open>h5py.File\<close>. The file object is
  modelled by its name and its datasets; a dataset of \<^verbatim>\<open>dtype=int\<close> with one
  unlimited axis is the list of its elements. Names of this module that the package
  module \<^verbatim>\<open>src/src/pmacfiltercontrol/pmacFilterControlWrapper.py\<close> also uses carry the
  suffix \<^verbatim>\<open>0\<close>; a leading underscore of a Python name is dropped.
\<close>

definition ATTENUATION_KEY :: string where
  "ATTENUATION_KEY = ''attenuation''"

definition ADJUSTMENT_KEY :: string where
  "ADJUSTMENT_KEY = ''adjustment''"

definition FRAME_NUMBER_KEY :: string where
  "FRAME_NUMBER_KEY = ''frame_number''"

record h5file =
  filename :: string
  dsets :: "string \<rightharpoonup> int list"

text \<open>
  \<^verbatim>\<open>create_dataset(key, (n,), maxshape=(None,), dtype=int)\<close>: \<open>n\<close> elements holding the
  default fill value \<open>0\<close>.
\<close>

definition create_dataset :: "h5file \<Rightarrow> string \<Rightarrow> nat \<Rightarrow> h5file" where
  "create_dataset f k n = f\<lparr>dsets := (dsets f)(k \<mapsto> replicate n 0)\<rparr>"

text \<open>
  \<^verbatim>\<open>dset.resize((n,))\<close> keeps the elements below \<open>n\<close> and fills the new ones with the
  fill value.
\<close>

definition resize :: "int list \<Rightarrow> nat \<Rightarrow> int list" where
  "resize xs n = take n xs @ replicate (n - length xs) 0"

text \<open>
  \<^verbatim>\<open>dset[i] = v\<close>: the value is converted to a 64-bit integer first (a Python integer
  outside the range raises), then the index is resolved; a negative index counts from the
  end, and an index outside the dataset raises.
\<close>

definition setitem :: "int list \<Rightarrow> int \<Rightarrow> int \<Rightarrow> py_error + int list" where
  "setitem xs i v =
     (let n = int (length xs); j = (if i < 0 then n + i else i)
      in if \<not> (- (2 ^ 63) \<le> v \<and> v < 2 ^ 63) then Inl OverflowError
         else if \<not> (0 \<le> j \<and> j < n) then Inl IndexError
         else Inr (xs[nat j := v]))"

text \<open>
  Where the growth loop runs, \<^verbatim>\<open>dset_size\<close> is a \<^verbatim>\<open>numpy.int64\<close> (the code asserts it
  first), so \<^verbatim>\<open>dset_size + 1\<close> wraps around at \<open>2 ^ 63\<close>.
\<close>

definition wrap64 :: "int \<Rightarrow> int" where
  "wrap64 x = (x + 2 ^ 63) mod 2 ^ 64 - 2 ^ 63"

text \<open>
  The loop \<^verbatim>\<open>while dset_size <= data[FRAME_NUMBER_KEY]: dset_size = dset_size + 1\<close>.
  It does not return for every frame number, so its result is an option.
\<close>

partial_function (option) grow :: "int \<Rightarrow> int \<Rightarrow> int option" where
  [code]: "grow dset_size n =
     (if dset_size \<le> n then grow (wrap64 (dset_size + 1)) n else Some dset_size)"

text \<open>
  The fields of the \<^verbatim>\<open>Wrapper\<close> object that the file handling and the status handler
  of this module use. The process variables are kept by the value last set on them.
  The rest is the environment of the object: \<open>fs_dirs\<close> and \<open>fs_files\<close> are the
  directories and files there are, by their absolute names, \<open>cwd0\<close> is the working
  directory, \<open>clock0\<close> is the text of \<^verbatim>\<open>dt.time(dt.now())\<close>, and \<open>stdout0\<close> collects what
  is printed. \<open>size_is_np_int64\<close> says whether the installed \<^verbatim>\<open>h5py\<close> gives
  \<^verbatim>\<open>Dataset.size\<close> as a \<^verbatim>\<open>numpy.int64\<close> (older versions do) or as a Python integer;
  \<^verbatim>\<open>_write_to_hdf5\<close> asserts the former before it grows the table.
\<close>

record wrapper0 =
  h5f0 :: "h5file option"
  file_path0 :: string
  file_name0 :: string
  file_full_name0 :: string
  timeout_rbv0 :: int
  state0 :: int
  version0 :: string
  process_duration0 :: int
  process_period0 :: int
  last_frame_received0 :: int
  last_frame_processed0 :: int
  time_since_last_frame0 :: int
  current_attenuation0 :: int
  fs_dirs :: "string list"
  fs_files :: "string list"
  cwd0 :: string
  clock0 :: string
  size_is_np_int64 :: bool
  stdout0 :: "string list"

text \<open>
  \<^verbatim>\<open>_write_to_hdf5(self, data)\<close>. \<open>data\<close> is the decoded event, a dictionary of
  integers. The result is \<open>None\<close> when the growth loop does not return; otherwise it
  is the exception raised, if any, and the object as the call left it. The branch that
  grows the table begins with \<^verbatim>\<open>assert isinstance(dset_size, np_int64)\<close>, which fails
  where \<^verbatim>\<open>Dataset.size\<close> is a Python integer.
\<close>

definition write_to_hdf5 ::
  "wrapper0 \<Rightarrow> (string \<rightharpoonup> int) \<Rightarrow> (py_error option \<times> wrapper0) option" where
  "write_to_hdf5 self data =
     (case h5f0 self of
        None \<Rightarrow> Some (Some AssertionError, self)
      | Some f0 \<Rightarrow>
          let f1 = (case dsets f0 ADJUSTMENT_KEY of
                      None \<Rightarrow> create_dataset f0 ADJUSTMENT_KEY 128 | Some _ \<Rightarrow> f0);
              f2 = (case dsets f1 ATTENUATION_KEY of
                      None \<Rightarrow> create_dataset f1 ATTENUATION_KEY 128 | Some _ \<Rightarrow> f1);
              self2 = self\<lparr>h5f0 := Some f2\<rparr>
          in (case dsets f2 ADJUSTMENT_KEY of
                None \<Rightarrow> Some (Some AssertionError, self2)
              | Some adjustment_dset \<Rightarrow>
            (case dsets f2 ATTENUATION_KEY of
                None \<Rightarrow> Some (Some AssertionError, self2)
              | Some attenuation_dset \<Rightarrow>
            if length adjustment_dset \<noteq> length attenuation_dset
            then Some (Some AssertionError, self2)
            else
            (case data FRAME_NUMBER_KEY of
                None \<Rightarrow> Some (Some (KeyError FRAME_NUMBER_KEY), self2)
              | Some n \<Rightarrow>
            if n \<ge> int (length adjustment_dset) \<and> \<not> size_is_np_int64 self
            then Some (Some AssertionError, self2)
            else
            (case (if n \<ge> int (length adjustment_dset)
                   then grow (int (length adjustment_dset)) n
                   else Some (int (length adjustment_dset))) of
                None \<Rightarrow> None
              | Some dset_size \<Rightarrow>
            let adj1 = (if n \<ge> int (length adjustment_dset)
                        then resize adjustment_dset (nat dset_size) else adjustment_dset);
                att1 = (if n \<ge> int (length adjustment_dset)
                        then resize attenuation_dset (nat dset_size) else attenuation_dset);
                f3 = f2\<lparr>dsets := (dsets f2)(ADJUSTMENT_KEY \<mapsto> adj1, ATTENUATION_KEY \<mapsto> att1)\<rparr>;
                self3 = self\<lparr>h5f0 := Some f3\<rparr>
            in
            (case data ADJUSTMENT_KEY of
                None \<Rightarrow> Some (Some (KeyError ADJUSTMENT_KEY), self3)
              | Some a \<Rightarrow>
            (case setitem adj1 n a of
                Inl e \<Rightarrow> Some (Some e, self3)
              | Inr adj2 \<Rightarrow>
            let f4 = f3\<lparr>dsets := (dsets f3)(ADJUSTMENT_KEY \<mapsto> adj2)\<rparr>;
                self4 = self\<lparr>h5f0 := Some f4\<rparr>
            in
            (case data ATTENUATION_KEY of
                None \<Rightarrow> Some (Some (KeyError ATTENUATION_KEY), self4)
              | Some b \<Rightarrow>
            (case setitem att1 n b of
                Inl e \<Rightarrow> Some (Some e, self4)
              | Inr att2 \<Rightarrow>
                Some (None,
                  self\<lparr>h5f0 := Some (f4\<lparr>dsets := (dsets f4)(ATTENUATION_KEY \<mapsto> att2)\<rparr>)\<rparr>))))))))))"


text \<open>
  A run of frame writes on the same object, one \<^verbatim>\<open>_write_to_hdf5\<close> call per event
  in arrival order. An exception leaves the event loop, so the run ends at the first one.
\<close>

fun write_frames ::
  "wrapper0 \<Rightarrow> (string \<rightharpoonup> int) list \<Rightarrow> (py_error option \<times> wrapper0) option" where
  "write_frames self [] = Some (None, self)"
| "write_frames self (data # rest) =
     (case write_to_hdf5 self data of
        None \<Rightarrow> None
      | Some (Some e, self') \<Rightarrow> Some (Some e, self')
      | Some (None, self') \<Rightarrow> write_frames self' rest)"

subsection \<open>Opening and closing the file\<close>

text \<open>
  \<^verbatim>\<open>s.strip(chars)\<close> removes the characters of \<open>chars\<close> from both ends, and
  \<^verbatim>\<open>s.rsplit("/", 1)\<close> splits at the last slash, giving one piece when there is none.
\<close>

definition py_strip :: "string \<Rightarrow> string \<Rightarrow> string" where
  "py_strip chars s =
     rev (dropWhile (\<lambda>c. c \<in> set chars) (rev (dropWhile (\<lambda>c. c \<in> set chars) s)))"

definition rsplit1 :: "string \<Rightarrow> string list" where
  "rsplit1 s =
     (if CHR ''/'' \<in> set s
      then [rev (tl (dropWhile (\<lambda>c. c \<noteq> CHR ''/'') (rev s))),
            rev (takeWhile (\<lambda>c. c \<noteq> CHR ''/'') (rev s))]
      else [s])"

definition print0 :: "string \<Rightarrow> wrapper0 \<Rightarrow> wrapper0" where
  "print0 line self = self\<lparr>stdout0 := stdout0 self @ [line]\<rparr>"

text \<open>\<^verbatim>\<open>_combine_file_path_and_name(self, exists=False)\<close>.\<close>

definition combine_file_path_and_name0 :: "wrapper0 \<Rightarrow> bool \<Rightarrow> wrapper0" where
  "combine_file_path_and_name0 self exists =
     (let path = file_path0 self;
          name = (if exists
                  then py_strip ''.h5'' (file_name0 self) @ ''-'' @ clock0 self @ ''.h5''
                  else file_name0 self)
      in self\<lparr>file_full_name0 := path @ ''/'' @ name\<rparr>)"

text \<open>
  The file system. A name that does not begin with a slash is taken from the working
  directory; names are compared as text, without further normalisation.
  \<^verbatim>\<open>os.path.isdir\<close> and \<^verbatim>\<open>os.path.isfile\<close> are false on the empty name.
\<close>

definition abspath0 :: "wrapper0 \<Rightarrow> string \<Rightarrow> string" where
  "abspath0 self p = (if p \<noteq> [] \<and> hd p = CHR ''/'' then p else cwd0 self @ ''/'' @ p)"

definition isdir0 :: "wrapper0 \<Rightarrow> string \<Rightarrow> bool" where
  "isdir0 self p \<longleftrightarrow> p \<noteq> [] \<and> abspath0 self p \<in> set (fs_dirs self)"

definition isfile0 :: "wrapper0 \<Rightarrow> string \<Rightarrow> bool" where
  "isfile0 self p \<longleftrightarrow> p \<noteq> [] \<and> abspath0 self p \<in> set (fs_files self)"

text \<open>
  \<^verbatim>\<open>os.makedirs(name, exist_ok=True)\<close> for a name without a slash, as
  \<^verbatim>\<open>_check_path\<close> calls it: the directory is made in the working directory. The empty
  name and the name of an existing file raise.
\<close>

definition makedirs :: "wrapper0 \<Rightarrow> string \<Rightarrow> py_error + wrapper0" where
  "makedirs self name =
     (if name = [] \<or> isfile0 self name then Inl OSError
      else if isdir0 self name then Inr self
      else Inr (self\<lparr>fs_dirs := abspath0 self name # fs_dirs self\<rparr>))"

text \<open>\<^verbatim>\<open>_check_path(self)\<close>: the value returned or the exception raised, and the object.\<close>

definition check_path :: "wrapper0 \<Rightarrow> (py_error + bool) \<times> wrapper0" where
  "check_path self =
     (if file_path0 self = [] \<or> file_name0 self = []
      then (Inr False,
            print0 (''Please enter a valid file path and name.\<newline>Path='' @ file_path0 self
                    @ ''\<newline>Name='' @ file_name0 self
                    @ ''\<newline>FullPath='' @ file_full_name0 self) self)
      else if \<not> isdir0 self (file_path0 self)
      then (case rsplit1 (file_path0 self) of
              [parent_path, dir_name] \<Rightarrow>
                if \<not> isdir0 self parent_path
                then (Inr False, print0 ''Path not found. Enter a valid path.'' self)
                else (case makedirs (print0 ''Parent path exists, making new dir'' self) dir_name of
                        Inl e \<Rightarrow> (Inl e, print0 ''Parent path exists, making new dir'' self)
                      | Inr self' \<Rightarrow> (Inr True, self'))
            | _ \<Rightarrow> (Inl IndexError, self))
      else (Inr True,
            if isfile0 self (file_full_name0 self)
            then combine_file_path_and_name0 self True else self))"

text \<open>
  \<^verbatim>\<open>h5py.File(name, "w", libver="latest")\<close>: a fresh file without datasets. It raises
  when \<open>name\<close> is a directory or the directory of \<open>name\<close> is not there; the root
  directory and the working directory always are.
\<close>

definition h5py_File :: "wrapper0 \<Rightarrow> string \<Rightarrow> py_error + wrapper0" where
  "h5py_File self name =
     (let created = self\<lparr>h5f0 := Some \<lparr>filename = name, dsets = Map.empty\<rparr>,
                         fs_files := abspath0 self name # fs_files self\<rparr>
      in if name = [] \<or> isdir0 self name then Inl OSError
         else (case rsplit1 name of
                 [parent_path, _] \<Rightarrow>
                   if parent_path = [] \<or> isdir0 self parent_path then Inr created
                   else Inl OSError
               | _ \<Rightarrow> Inr created))"

text \<open>\<^verbatim>\<open>_open_file(self)\<close>.\<close>

definition open_file0 :: "wrapper0 \<Rightarrow> (py_error + bool) \<times> wrapper0" where
  "open_file0 self =
     (case h5f0 self of
        None \<Rightarrow>
          (case check_path self of
             (Inl e, self1) \<Rightarrow> (Inl e, self1)
           | (Inr False, self1) \<Rightarrow> (Inr True, self1)
           | (Inr True, self1) \<Rightarrow>
               (case h5py_File self1 (file_full_name0 self1) of
                  Inl e \<Rightarrow> (Inl e, self1)
                | Inr self2 \<Rightarrow> (Inr True, self2)))
      | Some f \<Rightarrow>
          if file_full_name0 self \<noteq> filename f
          then (Inr False, print0 ''Another file is already open and being written to.'' self)
          else (Inr True, self))"

text \<open>\<^verbatim>\<open>_close_file(self)\<close>: the assertion, then the handle is released.\<close>

definition close_file0 :: "wrapper0 \<Rightarrow> py_error option \<times> wrapper0" where
  "close_file0 self =
     (case h5f0 self of
        None \<Rightarrow> (Some AssertionError, self)
      | Some f \<Rightarrow> (None, self\<lparr>h5f0 := None\<rparr>))"

subsection \<open>Text of a number\<close>

text \<open>\<^verbatim>\<open>str(n)\<close> for an integer: its decimal digits.\<close>

fun str_nat :: "nat \<Rightarrow> string" where
  "str_nat n =
     (if n < 10 then [''0123456789'' ! n]
      else str_nat (n div 10) @ [''0123456789'' ! (n mod 10)])"

definition py_str :: "int \<Rightarrow> string" where
  "py_str i = (if i < 0 then ''-'' @ str_nat (nat (- i)) else str_nat (nat i))"


subsection \<open>The status handler of the module\<close>

text \<open>\<^verbatim>\<open>d[k]\<close> on a dictionary raises \<^verbatim>\<open>KeyError\<close> for an absent key.\<close>

definition getitem :: "(string \<rightharpoonup> 'a) \<Rightarrow> string \<Rightarrow> py_error + 'a" where
  "getitem d k = (case d k of None \<Rightarrow> Inl (KeyError k) | Some v \<Rightarrow> Inr v)"

text \<open>
  \<^verbatim>\<open>_handle_status(self, status)\<close> of \<^verbatim>\<open>src/pmacFilterControlWrapper.py\<close>. The
  \<^verbatim>\<open>try\<close> around \<^verbatim>\<open>_close_file\<close> catches every exception and prints it; the text of an
  \<^verbatim>\<open>AssertionError\<close> without message is empty.
\<close>

definition handle_status0 :: "wrapper0 \<Rightarrow> (string \<rightharpoonup> int) \<Rightarrow> py_error option \<times> wrapper0" where
  "handle_status0 self status =
     (case getitem status ''state'' of Inl e \<Rightarrow> (Some e, self) | Inr state' \<Rightarrow>
      let self1 = self\<lparr>state0 := state'\<rparr> in
     (case getitem status ''version'' of Inl e \<Rightarrow> (Some e, self1) | Inr version' \<Rightarrow>
      let self2 = self1\<lparr>version0 := py_str version'\<rparr> in
     (case getitem status ''process_duration'' of Inl e \<Rightarrow> (Some e, self2) | Inr process_duration' \<Rightarrow>
      let self3 = self2\<lparr>process_duration0 := process_duration'\<rparr> in
     (case getitem status ''process_period'' of Inl e \<Rightarrow> (Some e, self3) | Inr process_period' \<Rightarrow>
      let self4 = self3\<lparr>process_period0 := process_period'\<rparr> in
     (case getitem status ''last_received_frame'' of Inl e \<Rightarrow> (Some e, self4) | Inr last_received_frame' \<Rightarrow>
      let self5 = self4\<lparr>last_frame_received0 := last_received_frame'\<rparr> in
     (case getitem status ''last_processed_frame'' of Inl e \<Rightarrow> (Some e, self5) | Inr last_processed_frame' \<Rightarrow>
      let self6 = self5\<lparr>last_frame_processed0 := last_processed_frame'\<rparr> in
     (case getitem status ''time_since_last_message'' of Inl e \<Rightarrow> (Some e, self6) | Inr time_since_last_frame' \<Rightarrow>
      let self7 = self6\<lparr>time_since_last_frame0 := time_since_last_frame'\<rparr>;
          self8 = (if time_since_last_frame' > timeout_rbv0 self7 \<and> h5f0 self7 \<noteq> None
                   then (case close_file0 self7 of
                           (None, s) \<Rightarrow> s
                         | (Some e, s) \<Rightarrow> print0 ''Failed closing file.\<newline>'' s)
                   else self7) in
     (case getitem status ''current_attenuation'' of Inl e \<Rightarrow> (Some e, self8) | Inr current_attenuation' \<Rightarrow>
      (None, self8\<lparr>current_attenuation0 := current_attenuation'\<rparr>)))))))))"

section \<open>The package module \<^verbatim>\<open>src/src/pmacfiltercontrol/pmacFilterControlWrapper.py\<close>\<close>

subsection \<open>Messages\<close>

text \<open>
  A message to the device is modelled by the command it encodes:
  \<^verbatim>\<open>{"command":"status"}\<close>, and \<^verbatim>\<open>{"command": "configure", "params": {key: value}}\<close>
  for one parameter. Positions and timeouts are numbers the code hands on unchanged;
  the model takes them as integers.
\<close>

datatype command = Status | Configure string int

text \<open>
  An inbound message is a byte string; the model identifies it with what
  \<^verbatim>\<open>json.loads\<close> makes of it. Parsed documents are JSON objects whose values are numbers
  or objects of numbers (the \<^verbatim>\<open>Dict[str, int]\<close> of a status).
\<close>

datatype jvalue = JNum int | JDict "string \<rightharpoonup> int"

type_synonym document = "string \<rightharpoonup> jvalue"

datatype payload = Malformed | Document document

definition json_loads :: "payload \<Rightarrow> py_error + document" where
  "json_loads resp = (case resp of Malformed \<Rightarrow> Inl JSONDecodeError | Document d \<Rightarrow> Inr d)"

text \<open>
  What a monitor loop finds in one pass: the link is not running, or it is running and
  \<^verbatim>\<open>get_response()\<close> hands over a message or \<^verbatim>\<open>None\<close>.
\<close>

datatype link_obs = LinkDown | LinkUp "payload option"

subsection \<open>The HDF adapter\<close>

text \<open>
  Modelled from the spec: the class \<^verbatim>\<open>HDFAdapter\<close> (\<^verbatim>\<open>hdfadapter.py\<close> is not among the
  sources). The wrapper reads its attribute \<^verbatim>\<open>file_open\<close> and calls \<^verbatim>\<open>_open_file\<close>,
  \<^verbatim>\<open>_close_file\<close>, \<^verbatim>\<open>_write_to_file\<close> and \<^verbatim>\<open>_set_file_path\<close>. The adapter is a
  parameter of the model: any state type \<open>'h\<close> with these operations. Following the
  spec, opening and closing do not raise (opening "fails (returns false, does not
  raise)", closing is "safe to call when nothing is open"); writing may raise.
\<close>

record 'h hdf_adapter =
  hdf_file_open :: "'h \<Rightarrow> bool"
  hdf_open_file :: "'h \<Rightarrow> 'h"
  hdf_close_file :: "'h \<Rightarrow> 'h"
  hdf_write_to_file :: "'h \<Rightarrow> document \<Rightarrow> py_error option \<times> 'h"
  hdf_set_file_path :: "'h \<Rightarrow> string \<Rightarrow> 'h"

subsection \<open>The wrapper object\<close>

text \<open>
  The fields of the \<^verbatim>\<open>Wrapper\<close> object that the modelled methods use. \<open>outbox\<close> is
  the list of messages handed to \<^verbatim>\<open>zmq_stream.send_message\<close>, \<open>stdout\<close> what is
  printed, \<open>dirs\<close> the directories there are, \<open>disk\<close> the text files written,
  \<open>clock\<close> the text of \<^verbatim>\<open>f"{dt.now():%Y%m%d-%H}"\<close>. The process variables (from \<open>state\<close> to
  \<open>shutter\<close>) are kept by the value last set on them.
\<close>

record 'h wrapper =
  connected :: bool
  status_recv :: bool
  h5f :: 'h
  outbox :: "command list"
  stdout :: "string list"
  state :: int
  version :: string
  process_duration :: int
  process_period :: int
  last_frame_received :: int
  last_frame_processed :: int
  time_since_last_frame :: int
  current_attenuation :: int
  timeout_rbv :: int
  file_open :: int
  file_close :: int
  shutter :: int
  device_name :: string
  autosave_dict :: "(string \<times> int) list"
  autosave_file :: string
  autosave_backup_file :: string
  dirs :: "string list"
  disk :: "string \<rightharpoonup> string"
  clock :: string

definition print :: "string \<Rightarrow> 'h wrapper \<Rightarrow> 'h wrapper" where
  "print line self = self\<lparr>stdout := stdout self @ [line]\<rparr>"

text \<open>What a record callback hands back.\<close>

datatype retval = RNone | RBool bool | RCoroutine

text \<open>
  \<^verbatim>\<open>_if_connected(func)\<close>: the wrapped function \<^verbatim>\<open>check_connection\<close>, called with the
  object and one argument.
\<close>

definition if_connected ::
  "('h wrapper \<Rightarrow> 'a \<Rightarrow> (py_error + retval) \<times> 'h wrapper) \<Rightarrow>
   'h wrapper \<Rightarrow> 'a \<Rightarrow> (py_error + retval) \<times> 'h wrapper" where
  "if_connected func self arg =
     (if \<not> connected self
      then (Inr (RBool True),
            print ''Not connected to device. Try again once connection resumed.'' self)
      else func self arg)"

text \<open>\<^verbatim>\<open>_send_message\<close>, \<^verbatim>\<open>_req_status\<close> and \<^verbatim>\<open>_configure_param\<close>.\<close>

definition send_message :: "'h wrapper \<Rightarrow> command \<Rightarrow> 'h wrapper" where
  "send_message self message = self\<lparr>outbox := outbox self @ [message]\<rparr>"

definition req_status :: "'h wrapper \<Rightarrow> 'h wrapper" where
  "req_status self = send_message self Status"

definition configure_param :: "'h wrapper \<Rightarrow> string \<Rightarrow> int \<Rightarrow> 'h wrapper" where
  "configure_param self key val = send_message self (Configure key val)"

text \<open>\<^verbatim>\<open>open_file(self, _)\<close> and \<^verbatim>\<open>close_file(self, _)\<close>, both under \<^verbatim>\<open>@_if_connected\<close>.\<close>

definition open_file_body :: "'h hdf_adapter \<Rightarrow> 'h wrapper \<Rightarrow> int \<Rightarrow> (py_error + retval) \<times> 'h wrapper" where
  "open_file_body hdf self v =
     (let self1 = (if v = 1 then self\<lparr>h5f := hdf_open_file hdf (h5f self)\<rparr> else self);
          self2 = (if file_close self1 \<noteq> 0 then self1\<lparr>file_close := 0\<rparr> else self1)
      in (Inr RNone, self2))"

definition open_file :: "'h hdf_adapter \<Rightarrow> 'h wrapper \<Rightarrow> int \<Rightarrow> (py_error + retval) \<times> 'h wrapper" where
  "open_file hdf = if_connected (open_file_body hdf)"

definition close_file_body :: "'h hdf_adapter \<Rightarrow> 'h wrapper \<Rightarrow> int \<Rightarrow> (py_error + retval) \<times> 'h wrapper" where
  "close_file_body hdf self v =
     (let self1 = (if v = 1 then self\<lparr>h5f := hdf_close_file hdf (h5f self)\<rparr> else self);
          self2 = (if file_open self1 \<noteq> 0 then self1\<lparr>file_open := 0\<rparr> else self1)
      in (Inr RNone, self2))"

definition close_file :: "'h hdf_adapter \<Rightarrow> 'h wrapper \<Rightarrow> int \<Rightarrow> (py_error + retval) \<times> 'h wrapper" where
  "close_file hdf = if_connected (close_file_body hdf)"

text \<open>\<^verbatim>\<open>_set_timeout(self, timeout)\<close>, under \<^verbatim>\<open>@_if_connected\<close>.\<close>

definition set_timeout_body :: "'h wrapper \<Rightarrow> int \<Rightarrow> (py_error + retval) \<times> 'h wrapper" where
  "set_timeout_body self timeout =
     (Inr RNone, (configure_param self ''timeout'' timeout)\<lparr>timeout_rbv := timeout\<rparr>)"

definition set_timeout :: "'h wrapper \<Rightarrow> int \<Rightarrow> (py_error + retval) \<times> 'h wrapper" where
  "set_timeout = if_connected set_timeout_body"


subsection \<open>The autosave file and the shutter position\<close>

text \<open>\<^verbatim>\<open>sep.join(xs)\<close>, and \<^verbatim>\<open>d[k] = v\<close> on a dictionary, which keeps the order of insertion.\<close>

fun join :: "string \<Rightarrow> string list \<Rightarrow> string" where
  "join sep [] = []"
| "join sep [x] = x"
| "join sep (x # y # ys) = x @ sep @ join sep (y # ys)"

fun dict_set :: "('k \<times> 'v) list \<Rightarrow> 'k \<Rightarrow> 'v \<Rightarrow> ('k \<times> 'v) list" where
  "dict_set [] k v = [(k, v)]"
| "dict_set ((k', v') # rest) k v =
     (if k' = k then (k, v) # rest else (k', v') # dict_set rest k v)"

text \<open>
  \<^verbatim>\<open>Path.write_text\<close>: the file gets the text. It raises when the name is that of a
  directory or the directory of the file is not there; the root directory and the
  working directory (of a name without a slash) always are. Names are compared as text.
\<close>

definition write_text :: "'h wrapper \<Rightarrow> string \<Rightarrow> string \<Rightarrow> py_error + 'h wrapper" where
  "write_text self path content =
     (let written = self\<lparr>disk := (disk self)(path \<mapsto> content)\<rparr>
      in if path \<in> set (dirs self) then Inl OSError
         else (case rsplit1 path of
                 [parent_dir, _] \<Rightarrow>
                   if parent_dir = [] \<or> parent_dir \<in> set (dirs self) then Inr written
                   else Inl OSError
               | _ \<Rightarrow> Inr written))"

text \<open>
  \<^verbatim>\<open>write_autosave(self)\<close>: the backup file lies beside the autosave file; both get the
  text of the dictionary, one \<^verbatim>\<open>key value\<close> pair per line, the autosave file first.
  An exception of a write leaves the function.
\<close>

definition write_autosave :: "'h wrapper \<Rightarrow> py_error option \<times> 'h wrapper" where
  "write_autosave self =
     (let backup_name = ''autosave-'' @ clock self @ ''.txt'';
          backup = (case rsplit1 (autosave_file self) of
                      [parent_dir, _] \<Rightarrow> parent_dir @ ''/'' @ backup_name
                    | _ \<Rightarrow> backup_name);
          content = join ''\<newline>'' (map (\<lambda>(key, value). key @ '' '' @ py_str value) (autosave_dict self));
          self1 = self\<lparr>autosave_backup_file := backup\<rparr>
      in (case write_text self1 (autosave_file self1) content of
            Inl e \<Rightarrow> (Some e, self1)
          | Inr self2 \<Rightarrow>
              let self3 = print (''Updated '' @ last (rsplit1 (autosave_file self2))
                                 @ '' with new positions.'') self2
              in (case write_text self3 backup content of
                    Inl e \<Rightarrow> (Some e, self3)
                  | Inr self4 \<Rightarrow>
                      (None, print (''Updated '' @ backup_name @ '' with new positions.'') self4))))"

text \<open>
  \<^verbatim>\<open>_set_shutter\<close> is an \<^verbatim>\<open>async def\<close> under \<^verbatim>\<open>@_if_connected\<close>: calling it builds a
  coroutine, whose body runs only when it is awaited.
\<close>

definition set_shutter_body :: "'h wrapper \<Rightarrow> string \<Rightarrow> (py_error + retval) \<times> 'h wrapper" where
  "set_shutter_body self shutter_state = (Inr RCoroutine, self)"

definition set_shutter :: "'h wrapper \<Rightarrow> string \<Rightarrow> (py_error + retval) \<times> 'h wrapper" where
  "set_shutter = if_connected set_shutter_body"

definition SHUTTER_CLOSED :: string where
  "SHUTTER_CLOSED = ''CLOSED''"

definition SHUTTER_OPEN :: string where
  "SHUTTER_OPEN = ''OPEN''"

text \<open>
  \<^verbatim>\<open>_set_shutter_pos(self, val, shutter_state)\<close>, the callback of the records
  \<^verbatim>\<open>SHUTTER:OPEN\<close> and \<^verbatim>\<open>SHUTTER:CLOSED\<close>. It carries no \<^verbatim>\<open>@_if_connected\<close>. The
  coroutine that \<^verbatim>\<open>_set_shutter\<close> returns is dropped without being awaited.
\<close>

definition set_shutter_pos :: "'h wrapper \<Rightarrow> int \<Rightarrow> string \<Rightarrow> (py_error + retval) \<times> 'h wrapper" where
  "set_shutter_pos self val shutter_state =
     (let self1 = (if shutter_state = SHUTTER_CLOSED
                   then configure_param self ''shutter_closed_position'' val else self);
          current_shutter_state = (if shutter self1 = 0 then ''CLOSED'' else ''OPEN'')
      in (case (if current_shutter_state = shutter_state
                then set_shutter self1 shutter_state else (Inr RNone, self1)) of
            (Inl e, self2) \<Rightarrow> (Inl e, self2)
          | (Inr _, self2) \<Rightarrow>
              (case write_autosave
                      (self2\<lparr>autosave_dict :=
                         dict_set (autosave_dict self2)
                           (device_name self2 @ '':SHUTTER:'' @ shutter_state) val\<rparr>) of
                 (Some e, self3) \<Rightarrow> (Inl e, self3)
               | (None, self3) \<Rightarrow> (Inr RNone, self3))))"

subsection \<open>The status handler\<close>

text \<open>\<^verbatim>\<open>_handle_status(self, status)\<close> of the package module.\<close>

definition handle_status ::
  "'h hdf_adapter \<Rightarrow> 'h wrapper \<Rightarrow> (string \<rightharpoonup> int) \<Rightarrow> py_error option \<times> 'h wrapper" where
  "handle_status hdf self status =
     (case getitem status ''state'' of Inl e \<Rightarrow> (Some e, self) | Inr state_read \<Rightarrow>
      let state' = (if state_read < 0 then 16 + state_read else state_read);
          self1 = self\<lparr>state := state'\<rparr> in
     (case getitem status ''version'' of Inl e \<Rightarrow> (Some e, self1) | Inr version' \<Rightarrow>
      let self2 = self1\<lparr>version := py_str version'\<rparr> in
     (case getitem status ''process_duration'' of Inl e \<Rightarrow> (Some e, self2) | Inr process_duration' \<Rightarrow>
      let self3 = self2\<lparr>process_duration := process_duration'\<rparr> in
     (case getitem status ''process_period'' of Inl e \<Rightarrow> (Some e, self3) | Inr process_period' \<Rightarrow>
      let self4 = self3\<lparr>process_period := process_period'\<rparr> in
     (case getitem status ''last_received_frame'' of Inl e \<Rightarrow> (Some e, self4) | Inr last_received_frame' \<Rightarrow>
      let self5 = self4\<lparr>last_frame_received := last_received_frame'\<rparr> in
     (case getitem status ''last_processed_frame'' of Inl e \<Rightarrow> (Some e, self5) | Inr last_processed_frame' \<Rightarrow>
      let self6 = self5\<lparr>last_frame_processed := last_processed_frame'\<rparr> in
     (case getitem status ''time_since_last_message'' of Inl e \<Rightarrow> (Some e, self6) | Inr time_since_last_frame' \<Rightarrow>
      let self7 = self6\<lparr>time_since_last_frame := time_since_last_frame'\<rparr> in
     (case (if time_since_last_frame' > timeout_rbv self7 \<and> last_received_frame' > 1
            then close_file hdf self7 1 else (Inr RNone, self7)) of
        (Inl e, self8) \<Rightarrow> (Some e, self8)
      | (Inr _, self8) \<Rightarrow>
     (case getitem status ''current_attenuation'' of Inl e \<Rightarrow> (Some e, self8) | Inr current_attenuation' \<Rightarrow>
      (None, self8\<lparr>current_attenuation := current_attenuation'\<rparr>))))))))))"

subsection \<open>The three loops\<close>

text \<open>
  The loops run as tasks of one cooperative scheduler: a task runs without interruption
  from one \<^verbatim>\<open>await\<close> to the next. Each loop is modelled by the step it takes when it is
  resumed, and by the place where it then waits.

  \<^verbatim>\<open>_query_status\<close> waits at the end of a pass (\<open>PollTop\<close>) or inside the retry loop
  (\<open>PollRetry\<close>); \<open>running\<close> is \<^verbatim>\<open>zmq_stream.running\<close> as the pass finds it.
\<close>

datatype poll_pc = PollTop | PollRetry

definition query_status_step :: "bool \<Rightarrow> poll_pc \<times> 'h wrapper \<Rightarrow> poll_pc \<times> 'h wrapper" where
  "query_status_step running st =
     (case st of
        (PollTop, self) \<Rightarrow>
          if \<not> running then (PollTop, print ''Zmq stream not running. waiting...'' self)
          else if status_recv self then (PollTop, req_status (self\<lparr>status_recv := False\<rparr>))
          else (PollRetry,
                (print ''No status response. Waiting for reconnect...'' self)\<lparr>connected := False\<rparr>)
      | (PollRetry, self) \<Rightarrow>
          let self1 = req_status self
          in if \<not> status_recv self1 then (PollRetry, self1)
             else (PollTop, print ''Reconnected and status recieved.'' self1))"

text \<open>
  A monitor loop waits for the next message (\<open>MonTop\<close>) or for the link to come back
  (\<open>MonWait\<close>). A step gives the exception that ended the loop, if any.
\<close>

datatype mon_pc = MonTop | MonWait

definition command_response ::
  "'h hdf_adapter \<Rightarrow> 'h wrapper \<Rightarrow> payload option \<Rightarrow> py_error option \<times> 'h wrapper" where
  "command_response hdf self resp =
     (case resp of
        None \<Rightarrow> (None, self)
      | Some bytes \<Rightarrow>
          (case json_loads bytes of
             Inl e \<Rightarrow> (Some e, self)
           | Inr resp_json \<Rightarrow>
               (case resp_json ''status'' of
                  None \<Rightarrow> (None, self)
                | Some status \<Rightarrow>
                    let self1 = (if \<not> connected self then self\<lparr>connected := True\<rparr> else self)
                    in (case status of
                          JNum _ \<Rightarrow> (Some TypeError, self1)
                        | JDict d \<Rightarrow>
                            (case handle_status hdf self1 d of
                               (Some e, self2) \<Rightarrow> (Some e, self2)
                             | (None, self2) \<Rightarrow> (None, self2\<lparr>status_recv := True\<rparr>))))))"

definition monitor_command_step ::
  "'h hdf_adapter \<Rightarrow> link_obs \<Rightarrow> mon_pc \<times> 'h wrapper \<Rightarrow> py_error option \<times> mon_pc \<times> 'h wrapper" where
  "monitor_command_step hdf obs st =
     (case (st, obs) of
        ((MonTop, self), LinkDown) \<Rightarrow>
          (None, MonWait, print ''- Command stream disconnected. Waiting for reconnect...'' self)
      | ((MonWait, self), LinkDown) \<Rightarrow> (None, MonWait, self)
      | ((MonTop, self), LinkUp resp) \<Rightarrow>
          (case command_response hdf self resp of (e, self') \<Rightarrow> (e, MonTop, self'))
      | ((MonWait, self), LinkUp resp) \<Rightarrow>
          (case command_response hdf (print ''- Command stream (re)connected.'' self) resp of
             (e, self') \<Rightarrow> (e, MonTop, self')))"

definition event_response ::
  "'h hdf_adapter \<Rightarrow> 'h wrapper \<Rightarrow> payload option \<Rightarrow> py_error option \<times> 'h wrapper" where
  "event_response hdf self resp =
     (case resp of
        None \<Rightarrow> (None, self)
      | Some bytes \<Rightarrow>
          (case json_loads bytes of
             Inl e \<Rightarrow> (Some e, self)
           | Inr resp_json \<Rightarrow>
               (case resp_json ''frame_number'' of
                  None \<Rightarrow> (None, self)
                | Some _ \<Rightarrow>
                    if hdf_file_open hdf (h5f self)
                    then (case hdf_write_to_file hdf (h5f self) resp_json of
                            (None, h) \<Rightarrow> (None, self\<lparr>h5f := h\<rparr>)
                          | (Some (RuntimeError msg), h) \<Rightarrow> (None, print msg (self\<lparr>h5f := h\<rparr>))
                          | (Some e, h) \<Rightarrow> (Some e, self\<lparr>h5f := h\<rparr>))
                    else (None, print ''WARNING: HDF5 file not open and frame received.'' self))))"

definition monitor_event_step ::
  "'h hdf_adapter \<Rightarrow> link_obs \<Rightarrow> mon_pc \<times> 'h wrapper \<Rightarrow> py_error option \<times> mon_pc \<times> 'h wrapper" where
  "monitor_event_step hdf obs st =
     (case (st, obs) of
        ((MonTop, self), LinkDown) \<Rightarrow>
          (None, MonWait, print ''- Event stream disconnected. Waiting for reconnect...'' self)
      | ((MonWait, self), LinkDown) \<Rightarrow> (None, MonWait, self)
      | ((MonTop, self), LinkUp resp) \<Rightarrow>
          (case event_response hdf self resp of (e, self') \<Rightarrow> (e, MonTop, self'))
      | ((MonWait, self), LinkUp resp) \<Rightarrow>
          (case event_response hdf (print ''- Event stream (re)connected.'' self) resp of
             (e, self') \<Rightarrow> (e, MonTop, self')))"

text \<open>
  \<^verbatim>\<open>monitor_command_stream\<close> and \<^verbatim>\<open>monitor_event_stream\<close> over the passes of the loop:
  the loop goes on while no step raises, and ends with the first exception.
\<close>

fun monitor_command_stream ::
  "'h hdf_adapter \<Rightarrow> mon_pc \<times> 'h wrapper \<Rightarrow> link_obs list \<Rightarrow> py_error option \<times> mon_pc \<times> 'h wrapper" where
  "monitor_command_stream hdf st [] = (None, st)"
| "monitor_command_stream hdf st (obs # rest) =
     (case monitor_command_step hdf obs st of
        (Some e, st') \<Rightarrow> (Some e, st')
      | (None, st') \<Rightarrow> monitor_command_stream hdf st' rest)"

fun monitor_event_stream ::
  "'h hdf_adapter \<Rightarrow> mon_pc \<times> 'h wrapper \<Rightarrow> link_obs list \<Rightarrow> py_error option \<times> mon_pc \<times> 'h wrapper" where
  "monitor_event_stream hdf st [] = (None, st)"
| "monitor_event_stream hdf st (obs # rest) =
     (case monitor_event_step hdf obs st of
        (Some e, st') \<Rightarrow> (Some e, st')
      | (None, st') \<Rightarrow> monitor_event_stream hdf st' rest)"

section \<open>Notions used in the statements\<close>

subsection \<open>Tables and frame records\<close>

text \<open>
  The table of an open file is well formed when the two datasets are both absent (the
  file is fresh) or both present with the same length; this is what
  \<^verbatim>\<open>_write_to_hdf5\<close> asserts.
\<close>

definition table_wf :: "h5file \<Rightarrow> bool" where
  "table_wf f =
     (case dsets f ADJUSTMENT_KEY of
        None \<Rightarrow> dsets f ATTENUATION_KEY = None
      | Some adj \<Rightarrow>
          (case dsets f ATTENUATION_KEY of None \<Rightarrow> False | Some att \<Rightarrow> length adj = length att))"

text \<open>
  A frame record as the spec describes it: the three keys are present, the frame number is
  not negative, and the numbers fit the 64-bit integers of the table (the frame number
  below \<open>2 ^ 63 - 1\<close>, so that the size \<open>N + 1\<close> is one too).
\<close>

definition frame_ok :: "(string \<rightharpoonup> int) \<Rightarrow> bool" where
  "frame_ok data =
     (case (data FRAME_NUMBER_KEY, data ADJUSTMENT_KEY, data ATTENUATION_KEY) of
        (Some n, Some a, Some b) \<Rightarrow>
          0 \<le> n \<and> n < 2 ^ 63 - 1 \<and> - (2 ^ 63) \<le> a \<and> a < 2 ^ 63 \<and> - (2 ^ 63) \<le> b \<and> b < 2 ^ 63
      | _ \<Rightarrow> False)"

text \<open>
  The column that a write finds under a key (the 128 zeros it creates when the dataset
  is absent), the column a write of \<open>v\<close> at frame \<open>n\<close> makes of it, and the length of a
  dataset of the wrapper's file (\<open>0\<close> when there is none).
\<close>

definition column :: "h5file \<Rightarrow> string \<Rightarrow> int list" where
  "column f k = (case dsets f k of None \<Rightarrow> replicate 128 0 | Some xs \<Rightarrow> xs)"

definition put :: "int list \<Rightarrow> int \<Rightarrow> int \<Rightarrow> int list" where
  "put xs n v = (if n \<ge> int (length xs) then resize xs (nat (n + 1)) else xs)[nat n := v]"


subsection \<open>Example objects\<close>

text \<open>
  A file just opened, a wrapper that holds it, a file with four recorded frames, and the
  event of one frame.
\<close>

definition fresh_file :: h5file where
  "fresh_file = \<lparr>filename = ''/data/tmp.h5'', dsets = Map.empty\<rparr>"

definition recording0 :: wrapper0 where
  "recording0 =
     \<lparr>h5f0 = Some fresh_file, file_path0 = ''/data'', file_name0 = ''tmp.h5'',
      file_full_name0 = ''/data/tmp.h5'', timeout_rbv0 = 3, state0 = 0, version0 = [],
      process_duration0 = 0, process_period0 = 0, last_frame_received0 = 0,
      last_frame_processed0 = 0, time_since_last_frame0 = 0, current_attenuation0 = 0,
      fs_dirs = [''/data''], fs_files = [''/data/tmp.h5''], cwd0 = ''/ioc'',
      clock0 = ''12:00:00'', size_is_np_int64 = True, stdout0 = []\<rparr>"

definition recorded_file :: h5file where
  "recorded_file =
     \<lparr>filename = ''/data/tmp.h5'',
      dsets = [ADJUSTMENT_KEY \<mapsto> [1, - 1, 0, 2], ATTENUATION_KEY \<mapsto> [3, 2, 2, 4]]\<rparr>"

definition frame :: "int \<Rightarrow> int \<Rightarrow> int \<Rightarrow> (string \<rightharpoonup> int)" where
  "frame n a b = [FRAME_NUMBER_KEY \<mapsto> n, ADJUSTMENT_KEY \<mapsto> a, ATTENUATION_KEY \<mapsto> b]"

subsection \<open>The order of a status message\<close>

text \<open>
  The keys of a status in the order in which \<^verbatim>\<open>_handle_status\<close> reads them;
  \<open>reached status j\<close> says that the first \<open>j\<close> of them are present, which is when the
  handler gets past the \<open>j\<close>-th lookup.
\<close>

definition status_keys :: "string list" where
  "status_keys =
     [''state'', ''version'', ''process_duration'', ''process_period'', ''last_received_frame'',
      ''last_processed_frame'', ''time_since_last_message'', ''current_attenuation'']"

definition reached :: "(string \<rightharpoonup> int) \<Rightarrow> nat \<Rightarrow> bool" where
  "reached status j = list_all (\<lambda>k. status k \<noteq> None) (take j status_keys)"

text \<open>
  What the handler does between publishing the time since the last frame and reading
  the attenuation: \<^verbatim>\<open>self.close_file(1)\<close> when the time is above the timeout and
  \<^verbatim>\<open>last_received_frame > 1\<close>.
\<close>

definition timeout_close :: "'h hdf_adapter \<Rightarrow> 'h wrapper \<Rightarrow> int \<Rightarrow> int \<Rightarrow> 'h wrapper" where
  "timeout_close hdf self t lrf =
     (if t > timeout_rbv self \<and> lrf > 1 then snd (close_file hdf self 1) else self)"

subsection \<open>Example objects of the package module\<close>

text \<open>
  Modelled from the spec: an \<^verbatim>\<open>HDFAdapter\<close> reduced to whether a file is open. Opening
  opens, closing closes and is harmless when nothing is open, and writing requires the
  file to be open. The theorems below hold for every adapter; this one serves the
  examples.
\<close>

definition flag_adapter :: "bool hdf_adapter" where
  "flag_adapter =
     \<lparr>hdf_file_open = (\<lambda>h. h),
      hdf_open_file = (\<lambda>h. True),
      hdf_close_file = (\<lambda>h. False),
      hdf_write_to_file =
        (\<lambda>h d. if h then (None, h) else (Some (RuntimeError ''File not open''), h)),
      hdf_set_file_path = (\<lambda>h p. h)\<rparr>"

text \<open>
  A wrapper as it is before the first status reply (not connected, no file open, the
  timeout at its initial value \<open>3\<close>), the same wrapper connected and recording, and a
  status message with all eight keys.
\<close>

definition idle_wrapper :: "bool wrapper" where
  "idle_wrapper =
     \<lparr>connected = False, status_recv = True, h5f = False, outbox = [], stdout = [],
      state = 0, version = [], process_duration = 0, process_period = 0,
      last_frame_received = 0, last_frame_processed = 0, time_since_last_frame = 0,
      current_attenuation = 0, timeout_rbv = 3, file_open = 0, file_close = 0, shutter = 0,
      device_name = ''PFC'', autosave_dict = [], autosave_file = ''/ioc/autosave.txt'',
      autosave_backup_file = [], dirs = [''/ioc''], disk = Map.empty,
      clock = ''20240101-12''\<rparr>"

definition recording :: "bool wrapper" where
  "recording = idle_wrapper\<lparr>connected := True, h5f := True, file_open := 1\<rparr>"

definition full_status :: "int \<Rightarrow> int \<Rightarrow> int \<Rightarrow> (string \<rightharpoonup> int)" where
  "full_status s lrf t =
     [''state'' \<mapsto> s, ''version'' \<mapsto> 1, ''process_duration'' \<mapsto> 40,
      ''process_period'' \<mapsto> 100, ''last_received_frame'' \<mapsto> lrf,
      ''last_processed_frame'' \<mapsto> lrf, ''time_since_last_message'' \<mapsto> t,
      ''current_attenuation'' \<mapsto> 3]"

section \<open>Properties of the frame recorder\<close>

subsection \<open>The growth loop returns\<close>

lemma wrap64_id: "- (2 ^ 63) \<le> x \<Longrightarrow> x < 2 ^ 63 \<Longrightarrow> wrap64 x = x"
  unfolding wrap64_def by (simp add: mod_pos_pos_trivial)

text \<open>
  From a size between \<open>0\<close> and \<open>n + 1\<close> the loop ends with \<open>n + 1\<close>, so long as that
  is a 64-bit number.
\<close>

lemma grow_returns:
  "0 \<le> sz \<Longrightarrow> sz \<le> n + 1 \<Longrightarrow> n < 2 ^ 63 - 1 \<Longrightarrow> grow sz n = Some (n + 1)"
proof (induction "nat (n + 1 - sz)" arbitrary: sz)
  case 0
  then have "sz = n + 1" by simp
  then show ?case by (subst grow.simps) simp
next
  case (Suc k)
  then have le: "sz \<le> n" by linarith
  have w: "wrap64 (sz + 1) = sz + 1"
    using Suc.prems le by (intro wrap64_id) linarith+
  have "grow (sz + 1) n = Some (n + 1)"
    using Suc by (intro Suc.hyps(1)) linarith+
  with le w show ?case by (subst grow.simps) simp
qed

subsection \<open>One write\<close>

lemma keys_distinct: "ADJUSTMENT_KEY \<noteq> ATTENUATION_KEY"
  by (simp add: ADJUSTMENT_KEY_def ATTENUATION_KEY_def)

lemma write_ok:
  assumes "h5f0 self = Some f" "table_wf f" "data FRAME_NUMBER_KEY = Some n" "data ADJUSTMENT_KEY = Some a"
    "data ATTENUATION_KEY = Some b" "0 \<le> n" "n < 2 ^ 63 - 1" "- (2 ^ 63) \<le> a" "a < 2 ^ 63" "- (2 ^ 63) \<le> b" "b < 2 ^ 63"
    and grows: "n \<ge> int (length (column f ADJUSTMENT_KEY)) \<Longrightarrow> size_is_np_int64 self"
  shows "write_to_hdf5 self data =
     Some (None, self\<lparr>h5f0 := Some (f\<lparr>dsets := (dsets f)(ADJUSTMENT_KEY \<mapsto> put (column f ADJUSTMENT_KEY) n a,
        ATTENUATION_KEY \<mapsto> put (column f ATTENUATION_KEY) n b)\<rparr>)\<rparr>)"
proof (cases "dsets f ADJUSTMENT_KEY")
  case None
  with assms(2) have att: "dsets f ATTENUATION_KEY = None" by (simp add: table_wf_def)
  show ?thesis
  proof (cases "n \<ge> 128")
    case True
    then have g: "grow 128 n = Some (n + 1)" using assms by (intro grow_returns) auto
    have np: "size_is_np_int64 self" using grows None True by (simp add: column_def)
    show ?thesis using assms(1-11) None att True g np keys_distinct
      by (simp add: write_to_hdf5_def create_dataset_def Let_def column_def put_def setitem_def resize_def fun_upd_twist)
  next
    case False
    show ?thesis using assms(1-11) None att False keys_distinct
      by (simp add: write_to_hdf5_def create_dataset_def Let_def column_def put_def setitem_def resize_def fun_upd_twist)
  qed
next
  case (Some adj)
  with assms(2) obtain att where att: "dsets f ATTENUATION_KEY = Some att" "length adj = length att"
    by (auto simp: table_wf_def split: option.splits)
  show ?thesis
  proof (cases "n \<ge> int (length adj)")
    case True
    then have g: "grow (int (length adj)) n = Some (n + 1)" using assms by (intro grow_returns) auto
    have np: "size_is_np_int64 self" using grows Some True by (simp add: column_def)
    show ?thesis using assms(1-11) Some att True g np keys_distinct
      by (simp add: write_to_hdf5_def create_dataset_def Let_def column_def put_def setitem_def resize_def fun_upd_twist)
  next
    case False
    show ?thesis using assms(1-11) Some att False keys_distinct
      by (simp add: write_to_hdf5_def create_dataset_def Let_def column_def put_def setitem_def resize_def fun_upd_twist)
  qed
qed

lemma frame_okD:
  assumes "frame_ok data"
  obtains n a b where "data FRAME_NUMBER_KEY = Some n" "data ADJUSTMENT_KEY = Some a"
    "data ATTENUATION_KEY = Some b" "0 \<le> n" "n < 2 ^ 63 - 1" "- (2 ^ 63) \<le> a" "a < 2 ^ 63" "- (2 ^ 63) \<le> b" "b < 2 ^ 63"
  using assms by (auto simp: frame_ok_def split: option.splits)

lemma length_put: "0 \<le> n \<Longrightarrow> length (put xs n v) = max (length xs) (nat (n + 1))"
  by (auto simp: put_def resize_def)

lemma nth_put:
  "0 \<le> n \<Longrightarrow> i < length (put xs n v) \<Longrightarrow>
   put xs n v ! i = (if i = nat n then v else if i < length xs then xs ! i else 0)"
  by (auto simp: put_def resize_def nth_append nth_list_update)

lemma column_wf_length: "table_wf f \<Longrightarrow> length (column f ADJUSTMENT_KEY) = length (column f ATTENUATION_KEY)"
  by (auto simp: table_wf_def column_def split: option.splits)

lemma write_step:
  assumes "h5f0 self = Some f" "table_wf f" "frame_ok data" "data FRAME_NUMBER_KEY = Some n"
    and grows: "n \<ge> int (length (column f ADJUSTMENT_KEY)) \<Longrightarrow> size_is_np_int64 self"
  shows "\<exists>self' f' a b. write_to_hdf5 self data = Some (None, self') \<and> h5f0 self' = Some f' \<and> table_wf f'
     \<and> size_is_np_int64 self' = size_is_np_int64 self
     \<and> data ADJUSTMENT_KEY = Some a \<and> data ATTENUATION_KEY = Some b
     \<and> dsets f' ADJUSTMENT_KEY = Some (put (column f ADJUSTMENT_KEY) n a)
     \<and> dsets f' ATTENUATION_KEY = Some (put (column f ATTENUATION_KEY) n b)
     \<and> column f' ADJUSTMENT_KEY = put (column f ADJUSTMENT_KEY) n a
     \<and> column f' ATTENUATION_KEY = put (column f ATTENUATION_KEY) n b"
proof -
  from assms(3) obtain n' a b where d: "data FRAME_NUMBER_KEY = Some n'" "data ADJUSTMENT_KEY = Some a"
    "data ATTENUATION_KEY = Some b" "0 \<le> n'" "n' < 2 ^ 63 - 1" "- (2 ^ 63) \<le> a" "a < 2 ^ 63" "- (2 ^ 63) \<le> b" "b < 2 ^ 63"
    by (rule frame_okD)
  with assms(4) have [simp]: "n' = n" by simp
  have w: "write_to_hdf5 self data =
     Some (None, self\<lparr>h5f0 := Some (f\<lparr>dsets := (dsets f)(ADJUSTMENT_KEY \<mapsto> put (column f ADJUSTMENT_KEY) n a,
        ATTENUATION_KEY \<mapsto> put (column f ATTENUATION_KEY) n b)\<rparr>)\<rparr>)"
    using write_ok[OF assms(1,2) d(1,2,3,4,5,6,7,8,9)] grows by simp
  have len: "length (put (column f ADJUSTMENT_KEY) n a) = length (put (column f ATTENUATION_KEY) n b)"
    using d(4) column_wf_length[OF assms(2)] by (simp add: length_put)
  show ?thesis
    using w d keys_distinct len by (simp add: table_wf_def column_def)
qed


lemma fresh_keys:
  "frame n a b FRAME_NUMBER_KEY = Some n" "frame n a b ADJUSTMENT_KEY = Some a" "frame n a b ATTENUATION_KEY = Some b"
  by (simp_all add: frame_def FRAME_NUMBER_KEY_def ADJUSTMENT_KEY_def ATTENUATION_KEY_def)

subsection \<open>Runs of writes\<close>

lemma write_frames_append:
  "write_frames self (ps @ qs) =
     (case write_frames self ps of
        None \<Rightarrow> None
      | Some (Some e, s) \<Rightarrow> Some (Some e, s)
      | Some (None, s) \<Rightarrow> write_frames s qs)"
  by (induction ps arbitrary: self) (auto split: option.splits prod.splits)

lemma write_frames_run:
  assumes "h5f0 self = Some f" "table_wf f" "\<forall>d\<in>set ds. frame_ok d" "size_is_np_int64 self"
  shows "\<exists>self' f'. write_frames self ds = Some (None, self') \<and> h5f0 self' = Some f' \<and> table_wf f'
     \<and> length (column f ADJUSTMENT_KEY) \<le> length (column f' ADJUSTMENT_KEY)
     \<and> (\<forall>d\<in>set ds. \<forall>n. d FRAME_NUMBER_KEY = Some n \<longrightarrow> nat n < length (column f' ADJUSTMENT_KEY))
     \<and> (\<forall>i<length (column f' ADJUSTMENT_KEY). (\<forall>d\<in>set ds. d FRAME_NUMBER_KEY \<noteq> Some (int i)) \<longrightarrow>
           column f' ADJUSTMENT_KEY ! i = (if i < length (column f ADJUSTMENT_KEY) then column f ADJUSTMENT_KEY ! i else 0)
         \<and> column f' ATTENUATION_KEY ! i = (if i < length (column f ATTENUATION_KEY) then column f ATTENUATION_KEY ! i else 0))
     \<and> (ds \<noteq> [] \<or> dsets f ADJUSTMENT_KEY \<noteq> None \<longrightarrow>
           dsets f' ADJUSTMENT_KEY = Some (column f' ADJUSTMENT_KEY) \<and> dsets f' ATTENUATION_KEY = Some (column f' ATTENUATION_KEY))
     \<and> size_is_np_int64 self'"
  using assms
proof (induction ds arbitrary: self f)
  case Nil
  then show ?case by (auto simp: column_def table_wf_def split: option.splits)
next
  case (Cons d ds)
  from Cons.prems have ok: "frame_ok d" and rest: "\<forall>d\<in>set ds. frame_ok d" by auto
  from ok obtain n where n: "d FRAME_NUMBER_KEY = Some n" "0 \<le> n" by (auto elim: frame_okD)
  from write_step[OF Cons.prems(1,2) ok n(1)] Cons.prems(4)
  obtain s1 f1 a b where s1: "write_to_hdf5 self d = Some (None, s1)" "h5f0 s1 = Some f1" "table_wf f1"
     "dsets f1 ADJUSTMENT_KEY = Some (put (column f ADJUSTMENT_KEY) n a)"
     "dsets f1 ATTENUATION_KEY = Some (put (column f ATTENUATION_KEY) n b)"
     "column f1 ADJUSTMENT_KEY = put (column f ADJUSTMENT_KEY) n a"
     "column f1 ATTENUATION_KEY = put (column f ATTENUATION_KEY) n b"
     "size_is_np_int64 s1"
    by blast
  from Cons.IH[OF s1(2,3) rest s1(8)]
  obtain s2 f2 where s2: "write_frames s1 ds = Some (None, s2)" "h5f0 s2 = Some f2" "table_wf f2"
     "length (column f1 ADJUSTMENT_KEY) \<le> length (column f2 ADJUSTMENT_KEY)"
     "\<forall>d\<in>set ds. \<forall>n. d FRAME_NUMBER_KEY = Some n \<longrightarrow> nat n < length (column f2 ADJUSTMENT_KEY)"
     "\<forall>i<length (column f2 ADJUSTMENT_KEY). (\<forall>d\<in>set ds. d FRAME_NUMBER_KEY \<noteq> Some (int i)) \<longrightarrow>
           column f2 ADJUSTMENT_KEY ! i = (if i < length (column f1 ADJUSTMENT_KEY) then column f1 ADJUSTMENT_KEY ! i else 0)
         \<and> column f2 ATTENUATION_KEY ! i = (if i < length (column f1 ATTENUATION_KEY) then column f1 ATTENUATION_KEY ! i else 0)"
     "ds \<noteq> [] \<or> dsets f1 ADJUSTMENT_KEY \<noteq> None \<longrightarrow>
           dsets f2 ADJUSTMENT_KEY = Some (column f2 ADJUSTMENT_KEY) \<and> dsets f2 ATTENUATION_KEY = Some (column f2 ATTENUATION_KEY)"
     "size_is_np_int64 s2"
    by blast
  have l1: "length (column f1 ADJUSTMENT_KEY) = max (length (column f ADJUSTMENT_KEY)) (nat (n + 1))"
    using n(2) by (simp add: s1(6) length_put)
  have l1': "length (column f1 ATTENUATION_KEY) = length (column f1 ADJUSTMENT_KEY)"
    using column_wf_length[OF s1(3)] by simp
  have l0': "length (column f ATTENUATION_KEY) = length (column f ADJUSTMENT_KEY)"
    using column_wf_length[OF Cons.prems(2)] by simp
  have run: "write_frames self (d # ds) = Some (None, s2)" using s1(1) s2(1) by simp
  have mono: "length (column f ADJUSTMENT_KEY) \<le> length (column f2 ADJUSTMENT_KEY)"
    using l1 s2(4) by simp
  have cover: "\<forall>d'\<in>set (d # ds). \<forall>m. d' FRAME_NUMBER_KEY = Some m \<longrightarrow> nat m < length (column f2 ADJUSTMENT_KEY)"
    using s2(5) n l1 s2(4) by auto
  have untouched: "column f2 ADJUSTMENT_KEY ! i = (if i < length (column f ADJUSTMENT_KEY) then column f ADJUSTMENT_KEY ! i else 0)
         \<and> column f2 ATTENUATION_KEY ! i = (if i < length (column f ATTENUATION_KEY) then column f ATTENUATION_KEY ! i else 0)"
    if i: "i < length (column f2 ADJUSTMENT_KEY)" and nw: "\<forall>d'\<in>set (d # ds). d' FRAME_NUMBER_KEY \<noteq> Some (int i)" for i
  proof -
    from nw n have ne: "i \<noteq> nat n" by auto
    from nw have "\<forall>d\<in>set ds. d FRAME_NUMBER_KEY \<noteq> Some (int i)" by simp
    with s2(6) i have eq: "column f2 ADJUSTMENT_KEY ! i = (if i < length (column f1 ADJUSTMENT_KEY) then column f1 ADJUSTMENT_KEY ! i else 0)"
         "column f2 ATTENUATION_KEY ! i = (if i < length (column f1 ATTENUATION_KEY) then column f1 ATTENUATION_KEY ! i else 0)"
      by blast+
    have a1: "i < length (column f1 ADJUSTMENT_KEY) \<Longrightarrow> column f1 ADJUSTMENT_KEY ! i = (if i < length (column f ADJUSTMENT_KEY) then column f ADJUSTMENT_KEY ! i else 0)"
      using n(2) ne by (simp add: s1(6) nth_put)
    have b1: "i < length (column f1 ATTENUATION_KEY) \<Longrightarrow> column f1 ATTENUATION_KEY ! i = (if i < length (column f ATTENUATION_KEY) then column f ATTENUATION_KEY ! i else 0)"
      using n(2) ne by (simp add: s1(7) nth_put)
    show ?thesis
      using eq a1 b1 l1 l1' l0' by (auto split: if_splits)
  qed
  have present: "dsets f2 ADJUSTMENT_KEY = Some (column f2 ADJUSTMENT_KEY) \<and> dsets f2 ATTENUATION_KEY = Some (column f2 ATTENUATION_KEY)"
    using s2(7) s1(4) by simp
  show ?case
    using run s2(2,3,8) mono cover untouched present by blast
qed



text \<open>
  Claim C9. On an open file with a well-formed table, write a record of frame \<open>N\<close>, then
  any records, then a second record of frame \<open>N\<close>. Where \<^verbatim>\<open>Dataset.size\<close> is a
  \<^verbatim>\<open>numpy.int64\<close> (the code asserts it when a write of the run grows the table), all
  writes return and slot \<open>N\<close> of each dataset then reads the value of the second record:
  the last write wins. And, whatever the type of the size, a write to a frame \<open>N\<close> below
  the length of the table returns, leaves the written values in slot \<open>N\<close>, and keeps
  the length of both datasets and every slot other than \<open>N\<close>: it overwrites that slot
  only.
\<close>

theorem last_write_wins:
  assumes "h5f0 self = Some f" and "table_wf f"
    and "frame_ok d1" and "\<forall>d\<in>set ds. frame_ok d" and "frame_ok d2"
    and "d1 FRAME_NUMBER_KEY = Some N" and "d2 FRAME_NUMBER_KEY = Some N"
  shows "(size_is_np_int64 self \<longrightarrow>
          (\<exists>self' f' adj att.
            write_frames self (d1 # ds @ [d2]) = Some (None, self') \<and> h5f0 self' = Some f' \<and>
            dsets f' ADJUSTMENT_KEY = Some adj \<and> dsets f' ATTENUATION_KEY = Some att \<and>
            nat N < length adj \<and> nat N < length att \<and>
            d2 ADJUSTMENT_KEY = Some (adj ! nat N) \<and> d2 ATTENUATION_KEY = Some (att ! nat N))) \<and>
         (\<forall>adj att. dsets f ADJUSTMENT_KEY = Some adj \<longrightarrow> dsets f ATTENUATION_KEY = Some att \<longrightarrow>
            N < int (length adj) \<longrightarrow>
            (\<exists>self' f' adj' att'.
               write_to_hdf5 self d2 = Some (None, self') \<and> h5f0 self' = Some f' \<and>
               dsets f' ADJUSTMENT_KEY = Some adj' \<and> dsets f' ATTENUATION_KEY = Some att' \<and>
               length adj' = length adj \<and> length att' = length att \<and>
               d2 ADJUSTMENT_KEY = Some (adj' ! nat N) \<and> d2 ATTENUATION_KEY = Some (att' ! nat N) \<and>
               (\<forall>i<length adj. i \<noteq> nat N \<longrightarrow> adj' ! i = adj ! i \<and> att' ! i = att ! i)))"
proof (intro conjI allI impI)
  assume np: "size_is_np_int64 self"
  have oks: "\<forall>d\<in>set (d1 # ds). frame_ok d" using assms(3,4) by simp
  from write_frames_run[OF assms(1,2) oks np]
  obtain m fm where m: "write_frames self (d1 # ds) = Some (None, m)" "h5f0 m = Some fm" "table_wf fm"
    "size_is_np_int64 m"
    by blast
  from assms(5,7) have N0: "0 \<le> N" by (auto elim: frame_okD)
  from write_step[OF m(2,3) assms(5,7)] m(4)
  obtain s' f' a b where w: "write_to_hdf5 m d2 = Some (None, s')" "h5f0 s' = Some f'"
     "d2 ADJUSTMENT_KEY = Some a" "d2 ATTENUATION_KEY = Some b"
     "dsets f' ADJUSTMENT_KEY = Some (put (column fm ADJUSTMENT_KEY) N a)"
     "dsets f' ATTENUATION_KEY = Some (put (column fm ATTENUATION_KEY) N b)"
    by blast
  have run: "write_frames self (d1 # ds @ [d2]) = Some (None, s')"
    using write_frames_append[of self "d1 # ds" "[d2]"] m(1) w(1) by simp
  have la: "nat N < length (put (column fm ADJUSTMENT_KEY) N a)"
    and lb: "nat N < length (put (column fm ATTENUATION_KEY) N b)"
    using N0 by (simp_all add: length_put)
  have va: "put (column fm ADJUSTMENT_KEY) N a ! nat N = a"
    and vb: "put (column fm ATTENUATION_KEY) N b ! nat N = b"
    using N0 la lb by (simp_all add: nth_put)
  show "\<exists>self' f' adj att.
            write_frames self (d1 # ds @ [d2]) = Some (None, self') \<and> h5f0 self' = Some f' \<and>
            dsets f' ADJUSTMENT_KEY = Some adj \<and> dsets f' ATTENUATION_KEY = Some att \<and>
            nat N < length adj \<and> nat N < length att \<and>
            d2 ADJUSTMENT_KEY = Some (adj ! nat N) \<and> d2 ATTENUATION_KEY = Some (att ! nat N)"
    using run w(2,3,4,5,6) la lb va vb by simp
next
  fix adj att
  assume adj: "dsets f ADJUSTMENT_KEY = Some adj" and att: "dsets f ATTENUATION_KEY = Some att"
    and below: "N < int (length adj)"
  from assms(5,7) have N0: "0 \<le> N" by (auto elim: frame_okD)
  have len: "length adj = length att" using assms(2) adj att by (simp add: table_wf_def)
  have ca: "column f ADJUSTMENT_KEY = adj" and cb: "column f ATTENUATION_KEY = att"
    using adj att by (simp_all add: column_def)
  have no_growth: "\<not> N \<ge> int (length (column f ADJUSTMENT_KEY))"
    using below ca by simp
  from write_step[OF assms(1,2,5,7)] no_growth
  obtain s' f' a b where w: "write_to_hdf5 self d2 = Some (None, s')" "h5f0 s' = Some f'"
     "d2 ADJUSTMENT_KEY = Some a" "d2 ATTENUATION_KEY = Some b"
     "dsets f' ADJUSTMENT_KEY = Some (put adj N a)"
     "dsets f' ATTENUATION_KEY = Some (put att N b)"
    unfolding ca cb by blast
  have pa: "put adj N a = adj[nat N := a]" and pb: "put att N b = att[nat N := b]"
    using below len by (simp_all add: put_def)
  have ia: "nat N < length adj" and ib: "nat N < length att"
    using below N0 len by simp_all
  show "\<exists>self' f' adj' att'.
               write_to_hdf5 self d2 = Some (None, self') \<and> h5f0 self' = Some f' \<and>
               dsets f' ADJUSTMENT_KEY = Some adj' \<and> dsets f' ATTENUATION_KEY = Some att' \<and>
               length adj' = length adj \<and> length att' = length att \<and>
               d2 ADJUSTMENT_KEY = Some (adj' ! nat N) \<and> d2 ATTENUATION_KEY = Some (att' ! nat N) \<and>
               (\<forall>i<length adj. i \<noteq> nat N \<longrightarrow> adj' ! i = adj ! i \<and> att' ! i = att ! i)"
    using w pa pb len ia ib by simp
qed

theorem last_write_wins_witness:
  "size_is_np_int64 (recording0\<lparr>h5f0 := Some recorded_file\<rparr>) \<and>
   table_wf recorded_file \<and> frame_ok (frame 2 1 5) \<and> frame_ok (frame 2 (- 1) 6) \<and>
   (\<exists>self' f' adj att.
       write_frames (recording0\<lparr>h5f0 := Some recorded_file\<rparr>)
         (frame 2 1 5 # [frame 7 0 0] @ [frame 2 (- 1) 6]) = Some (None, self') \<and>
       h5f0 self' = Some f' \<and>
       dsets f' ADJUSTMENT_KEY = Some adj \<and> dsets f' ATTENUATION_KEY = Some att \<and>
       nat 2 < length adj \<and> nat 2 < length att \<and>
       frame 2 (- 1) 6 ADJUSTMENT_KEY = Some (adj ! nat 2) \<and>
       frame 2 (- 1) 6 ATTENUATION_KEY = Some (att ! nat 2)) \<and>
   (\<exists>self' f' adj' att'.
       write_to_hdf5 (recording0\<lparr>h5f0 := Some recorded_file\<rparr>) (frame 2 (- 1) 6)
         = Some (None, self') \<and>
       h5f0 self' = Some f' \<and>
       dsets f' ADJUSTMENT_KEY = Some adj' \<and> dsets f' ATTENUATION_KEY = Some att' \<and>
       length adj' = length [1, - 1, 0, 2 :: int] \<and> length att' = length [3, 2, 2, 4 :: int] \<and>
       frame 2 (- 1) 6 ADJUSTMENT_KEY = Some (adj' ! nat 2) \<and>
       frame 2 (- 1) 6 ATTENUATION_KEY = Some (att' ! nat 2) \<and>
       (\<forall>i<length [1, - 1, 0, 2 :: int]. i \<noteq> nat 2 \<longrightarrow>
           adj' ! i = [1, - 1, 0, 2] ! i \<and> att' ! i = [3, 2, 2, 4] ! i))"
proof -
  let ?s = "recording0\<lparr>h5f0 := Some recorded_file\<rparr>"
  have h: "h5f0 ?s = Some recorded_file" by simp
  have np: "size_is_np_int64 ?s" by (simp add: recording0_def)
  have wf: "table_wf recorded_file"
    using keys_distinct by (simp add: table_wf_def recorded_file_def)
  have a: "frame_ok (frame 2 1 5)" and m: "\<forall>d\<in>set [frame 7 0 0]. frame_ok d"
    and b: "frame_ok (frame 2 (- 1) 6)"
    by (simp_all add: frame_ok_def fresh_keys)
  have n1: "frame 2 1 5 FRAME_NUMBER_KEY = Some 2" and n2: "frame 2 (- 1) 6 FRAME_NUMBER_KEY = Some 2"
    by (simp_all add: fresh_keys)
  have da: "dsets recorded_file ADJUSTMENT_KEY = Some [1, - 1, 0, 2]"
    and db: "dsets recorded_file ATTENUATION_KEY = Some [3, 2, 2, 4]"
    using keys_distinct by (simp_all add: recorded_file_def)
  have below: "(2::int) < int (length [1, - 1, 0, 2 :: int])" by simp
  note t = last_write_wins[OF h wf a m b n1 n2]
  note t1 = conjunct1[OF t, rule_format, OF np]
  note t2 = conjunct2[OF t, rule_format, OF da db below]
  show ?thesis
    using np wf a b t1 t2 by (intro conjI) assumption+
qed

text \<open>
  Where \<^verbatim>\<open>Dataset.size\<close> is a Python integer, a write at or beyond the end of the table
  fails the assertion before anything is resized: the datasets keep their lengths.
\<close>

lemma write_grow_asserts:
  assumes "h5f0 self = Some f" "dsets f ADJUSTMENT_KEY = Some adj" "dsets f ATTENUATION_KEY = Some att"
    "length adj = length att" "data FRAME_NUMBER_KEY = Some n" "n \<ge> int (length adj)"
    "\<not> size_is_np_int64 self"
  shows "write_to_hdf5 self data = Some (Some AssertionError, self)"
  using assms by (simp add: write_to_hdf5_def Let_def)

section \<open>Properties of opening and closing\<close>

text \<open>
  Claim C7. While a file \<open>a\<close> is open and the full name set on the wrapper is another
  one, \<^verbatim>\<open>_open_file\<close> returns \<^verbatim>\<open>False\<close> without raising; it prints one line and
  changes nothing else, so \<open>a\<close> stays open with its table as it was.
\<close>

theorem open_other_file_fails:
  assumes "h5f0 self = Some a" and "file_full_name0 self \<noteq> filename a"
  shows "open_file0 self =
           (Inr False,
            self\<lparr>stdout0 := stdout0 self @ [''Another file is already open and being written to.'']\<rparr>) \<and>
         h5f0 (snd (open_file0 self)) = Some a"
  using assms by (simp add: open_file0_def print0_def)

theorem open_other_file_fails_witness:
  "h5f0 (recording0\<lparr>h5f0 := Some recorded_file, file_full_name0 := ''/data/other.h5''\<rparr>)
     = Some recorded_file \<and>
   file_full_name0 (recording0\<lparr>h5f0 := Some recorded_file, file_full_name0 := ''/data/other.h5''\<rparr>)
     \<noteq> filename recorded_file \<and>
   fst (open_file0 (recording0\<lparr>h5f0 := Some recorded_file, file_full_name0 := ''/data/other.h5''\<rparr>))
     = Inr False \<and>
   h5f0 (snd (open_file0 (recording0\<lparr>h5f0 := Some recorded_file, file_full_name0 := ''/data/other.h5''\<rparr>)))
     = Some recorded_file"
proof -
  let ?s = "recording0\<lparr>h5f0 := Some recorded_file, file_full_name0 := ''/data/other.h5''\<rparr>"
  have h: "h5f0 ?s = Some recorded_file" by simp
  have n: "file_full_name0 ?s \<noteq> filename recorded_file" by (simp add: recorded_file_def)
  show ?thesis using h n open_other_file_fails[OF h n] by simp
qed

text \<open>
  Claim C8 fails on the code: \<^verbatim>\<open>_close_file\<close> asserts that a file is open, so calling
  it with none raises \<^verbatim>\<open>AssertionError\<close>.
\<close>

theorem close_without_file_raises:
  "h5f0 (recording0\<lparr>h5f0 := None\<rparr>) = None \<and>
   fst (close_file0 (recording0\<lparr>h5f0 := None\<rparr>)) = Some AssertionError"
  by (simp add: close_file0_def)

lemma handle_status0_no_file:
  assumes "h5f0 self = None"
  shows "h5f0 (snd (handle_status0 self status)) = None \<and>
         stdout0 (snd (handle_status0 self status)) = stdout0 self \<and>
         (\<forall>e. fst (handle_status0 self status) = Some e \<longrightarrow> (\<exists>k. e = KeyError k \<and> status k = None))"
  using assms
  by (auto simp: handle_status0_def getitem_def Let_def split: option.splits)

text \<open>
  Claim C8 as amended. \<^verbatim>\<open>_close_file\<close> requires an open file. With none open it raises
  \<^verbatim>\<open>AssertionError\<close> and leaves the absent handle as it is; with a file open it releases
  the handle, and a second call then raises. The status handler calls it only when a
  file is open: handling a status while no file is open leaves the handle absent, prints
  nothing, and raises at most the \<^verbatim>\<open>KeyError\<close> of a key the status lacks.
\<close>

theorem close_requires_open_file:
  "(h5f0 self = None \<longrightarrow> close_file0 self = (Some AssertionError, self)) \<and>
   (h5f0 self = Some f \<longrightarrow> close_file0 self = (None, self\<lparr>h5f0 := None\<rparr>) \<and>
      close_file0 (snd (close_file0 self)) = (Some AssertionError, self\<lparr>h5f0 := None\<rparr>)) \<and>
   (h5f0 self = None \<longrightarrow>
      h5f0 (snd (handle_status0 self status)) = None \<and>
      stdout0 (snd (handle_status0 self status)) = stdout0 self \<and>
      (\<forall>e. fst (handle_status0 self status) = Some e \<longrightarrow> (\<exists>k. e = KeyError k \<and> status k = None)))"
  using handle_status0_no_file[of self status]
  by (simp add: close_file0_def)

theorem close_requires_open_file_witness:
  "close_file0 (recording0\<lparr>h5f0 := None\<rparr>) = (Some AssertionError, recording0\<lparr>h5f0 := None\<rparr>) \<and>
   close_file0 recording0 = (None, recording0\<lparr>h5f0 := None\<rparr>) \<and>
   h5f0 (snd (handle_status0 (recording0\<lparr>h5f0 := None\<rparr>) (full_status 2 1 10))) = None \<and>
   fst (handle_status0 (recording0\<lparr>h5f0 := None\<rparr>) (full_status 2 1 10)) = None \<and>
   h5f0 (snd (handle_status0 recording0 (full_status 2 1 10))) = None"
proof -
  have n: "h5f0 (recording0\<lparr>h5f0 := None\<rparr>) = None" by simp
  have o: "h5f0 recording0 = Some fresh_file" by (simp add: recording0_def)
  note a = close_requires_open_file[of "recording0\<lparr>h5f0 := None\<rparr>" fresh_file "full_status 2 1 10"]
  note b = close_requires_open_file[of recording0 fresh_file "full_status 2 1 10"]
  have e: "fst (handle_status0 (recording0\<lparr>h5f0 := None\<rparr>) (full_status 2 1 10)) = None"
    by (simp add: handle_status0_def getitem_def Let_def recording0_def full_status_def)
  have c: "h5f0 (snd (handle_status0 recording0 (full_status 2 1 10))) = None"
    by (simp add: handle_status0_def getitem_def Let_def recording0_def close_file0_def
        full_status_def)
  show ?thesis using a b n o e c by simp
qed

text \<open>
  The status handler of \<^verbatim>\<open>src/pmacFilterControlWrapper.py\<close> publishes the state code as
  it comes, and on a complete status it closes the file exactly when the time since the
  last frame is above the timeout and a file is open.
\<close>

lemma handle_status0_state:
  "status ''state'' = Some s \<Longrightarrow> state0 (snd (handle_status0 self status)) = s"
  by (auto simp: handle_status0_def getitem_def Let_def close_file0_def print0_def
        split: option.splits)

lemma handle_status0_closes:
  assumes "status ''state'' = Some s" "status ''version'' = Some v"
    "status ''process_duration'' = Some pd" "status ''process_period'' = Some pp"
    "status ''last_received_frame'' = Some lrf" "status ''last_processed_frame'' = Some lpf"
    "status ''time_since_last_message'' = Some t" "status ''current_attenuation'' = Some ca"
  shows "fst (handle_status0 self status) = None \<and>
         h5f0 (snd (handle_status0 self status)) =
           (if t > timeout_rbv0 self then None else h5f0 self)"
  using assms
  by (auto simp: handle_status0_def getitem_def Let_def close_file0_def print0_def
        split: option.splits)

section \<open>Properties of the status handler\<close>

subsection \<open>The handler, one absent key at a time\<close>

lemma close_file_returns: "\<exists>x. fst (close_file hdf s v) = Inr x"
  by (simp add: close_file_def if_connected_def close_file_body_def Let_def)

lemma close_file_fields:
  "state (snd (close_file hdf s v)) = state s"
  "version (snd (close_file hdf s v)) = version s"
  "process_duration (snd (close_file hdf s v)) = process_duration s"
  "process_period (snd (close_file hdf s v)) = process_period s"
  "last_frame_received (snd (close_file hdf s v)) = last_frame_received s"
  "last_frame_processed (snd (close_file hdf s v)) = last_frame_processed s"
  "time_since_last_frame (snd (close_file hdf s v)) = time_since_last_frame s"
  "current_attenuation (snd (close_file hdf s v)) = current_attenuation s"
  "connected (snd (close_file hdf s v)) = connected s"
  "timeout_rbv (snd (close_file hdf s v)) = timeout_rbv s"
  "status_recv (snd (close_file hdf s v)) = status_recv s"
  "outbox (snd (close_file hdf s v)) = outbox s"
  by (simp_all add: close_file_def if_connected_def close_file_body_def print_def Let_def)

lemma handle_status_1:
  "status ''state'' = None \<Longrightarrow> handle_status hdf self status = (Some (KeyError ''state''), self)"
  by (simp add: handle_status_def getitem_def)

lemma handle_status_2:
  "status ''state'' = Some s \<Longrightarrow> status ''version'' = None \<Longrightarrow>
   handle_status hdf self status =
     (Some (KeyError ''version''), self\<lparr>state := if s < 0 then 16 + s else s\<rparr>)"
  by (simp add: handle_status_def getitem_def Let_def)

lemma handle_status_3:
  "status ''state'' = Some s \<Longrightarrow> status ''version'' = Some v \<Longrightarrow>
   status ''process_duration'' = None \<Longrightarrow>
   handle_status hdf self status =
     (Some (KeyError ''process_duration''),
      self\<lparr>state := if s < 0 then 16 + s else s, version := py_str v\<rparr>)"
  by (simp add: handle_status_def getitem_def Let_def)

lemma handle_status_4:
  "status ''state'' = Some s \<Longrightarrow> status ''version'' = Some v \<Longrightarrow>
   status ''process_duration'' = Some pd \<Longrightarrow> status ''process_period'' = None \<Longrightarrow>
   handle_status hdf self status =
     (Some (KeyError ''process_period''),
      self\<lparr>state := if s < 0 then 16 + s else s, version := py_str v, process_duration := pd\<rparr>)"
  by (simp add: handle_status_def getitem_def Let_def)

lemma handle_status_5:
  "status ''state'' = Some s \<Longrightarrow> status ''version'' = Some v \<Longrightarrow>
   status ''process_duration'' = Some pd \<Longrightarrow> status ''process_period'' = Some pp \<Longrightarrow>
   status ''last_received_frame'' = None \<Longrightarrow>
   handle_status hdf self status =
     (Some (KeyError ''last_received_frame''),
      self\<lparr>state := if s < 0 then 16 + s else s, version := py_str v, process_duration := pd,
           process_period := pp\<rparr>)"
  by (simp add: handle_status_def getitem_def Let_def)

lemma handle_status_6:
  "status ''state'' = Some s \<Longrightarrow> status ''version'' = Some v \<Longrightarrow>
   status ''process_duration'' = Some pd \<Longrightarrow> status ''process_period'' = Some pp \<Longrightarrow>
   status ''last_received_frame'' = Some lrf \<Longrightarrow> status ''last_processed_frame'' = None \<Longrightarrow>
   handle_status hdf self status =
     (Some (KeyError ''last_processed_frame''),
      self\<lparr>state := if s < 0 then 16 + s else s, version := py_str v, process_duration := pd,
           process_period := pp, last_frame_received := lrf\<rparr>)"
  by (simp add: handle_status_def getitem_def Let_def)

lemma handle_status_7:
  "status ''state'' = Some s \<Longrightarrow> status ''version'' = Some v \<Longrightarrow>
   status ''process_duration'' = Some pd \<Longrightarrow> status ''process_period'' = Some pp \<Longrightarrow>
   status ''last_received_frame'' = Some lrf \<Longrightarrow> status ''last_processed_frame'' = Some lpf \<Longrightarrow>
   status ''time_since_last_message'' = None \<Longrightarrow>
   handle_status hdf self status =
     (Some (KeyError ''time_since_last_message''),
      self\<lparr>state := if s < 0 then 16 + s else s, version := py_str v, process_duration := pd,
           process_period := pp, last_frame_received := lrf, last_frame_processed := lpf\<rparr>)"
  by (simp add: handle_status_def getitem_def Let_def)

lemma handle_status_8:
  assumes "status ''state'' = Some s" "status ''version'' = Some v"
    "status ''process_duration'' = Some pd" "status ''process_period'' = Some pp"
    "status ''last_received_frame'' = Some lrf" "status ''last_processed_frame'' = Some lpf"
    "status ''time_since_last_message'' = Some t" "status ''current_attenuation'' = None"
  shows "handle_status hdf self status =
     (Some (KeyError ''current_attenuation''),
      timeout_close hdf
        (self\<lparr>state := if s < 0 then 16 + s else s, version := py_str v, process_duration := pd,
           process_period := pp, last_frame_received := lrf, last_frame_processed := lpf,
           time_since_last_frame := t\<rparr>) t lrf)"
proof -
  let ?s7 = "self\<lparr>state := if s < 0 then 16 + s else s, version := py_str v, process_duration := pd,
           process_period := pp, last_frame_received := lrf, last_frame_processed := lpf,
           time_since_last_frame := t\<rparr>"
  obtain x where c: "fst (close_file hdf ?s7 1) = Inr x"
    using close_file_returns[of hdf ?s7 1] by blast
  show ?thesis
  proof (cases "t > timeout_rbv self \<and> lrf > 1")
    case True
    then show ?thesis
      using assms c
      by (simp add: handle_status_def getitem_def Let_def timeout_close_def case_prod_beta split del: if_split)
  next
    case False
    then have f: "(timeout_rbv self < t \<and> 1 < lrf) = False" by simp
    show ?thesis
      using assms
      by (simp add: handle_status_def getitem_def Let_def timeout_close_def f split del: if_split)
  qed
qed

lemma handle_status_9:
  assumes "status ''state'' = Some s" "status ''version'' = Some v"
    "status ''process_duration'' = Some pd" "status ''process_period'' = Some pp"
    "status ''last_received_frame'' = Some lrf" "status ''last_processed_frame'' = Some lpf"
    "status ''time_since_last_message'' = Some t" "status ''current_attenuation'' = Some ca"
  shows "handle_status hdf self status =
     (None,
      (timeout_close hdf
        (self\<lparr>state := if s < 0 then 16 + s else s, version := py_str v, process_duration := pd,
           process_period := pp, last_frame_received := lrf, last_frame_processed := lpf,
           time_since_last_frame := t\<rparr>) t lrf)\<lparr>current_attenuation := ca\<rparr>)"
proof -
  let ?s7 = "self\<lparr>state := if s < 0 then 16 + s else s, version := py_str v, process_duration := pd,
           process_period := pp, last_frame_received := lrf, last_frame_processed := lpf,
           time_since_last_frame := t\<rparr>"
  obtain x where c: "fst (close_file hdf ?s7 1) = Inr x"
    using close_file_returns[of hdf ?s7 1] by blast
  show ?thesis
  proof (cases "t > timeout_rbv self \<and> lrf > 1")
    case True
    then show ?thesis
      using assms c
      by (simp add: handle_status_def getitem_def Let_def timeout_close_def case_prod_beta split del: if_split)
  next
    case False
    then have f: "(timeout_rbv self < t \<and> 1 < lrf) = False" by simp
    show ?thesis
      using assms
      by (simp add: handle_status_def getitem_def Let_def timeout_close_def f split del: if_split)
  qed
qed

lemma timeout_close_fields:
  "state (timeout_close hdf s t lrf) = state s"
  "version (timeout_close hdf s t lrf) = version s"
  "process_duration (timeout_close hdf s t lrf) = process_duration s"
  "process_period (timeout_close hdf s t lrf) = process_period s"
  "last_frame_received (timeout_close hdf s t lrf) = last_frame_received s"
  "last_frame_processed (timeout_close hdf s t lrf) = last_frame_processed s"
  "time_since_last_frame (timeout_close hdf s t lrf) = time_since_last_frame s"
  "current_attenuation (timeout_close hdf s t lrf) = current_attenuation s"
  "connected (timeout_close hdf s t lrf) = connected s"
  "timeout_rbv (timeout_close hdf s t lrf) = timeout_rbv s"
  "status_recv (timeout_close hdf s t lrf) = status_recv s"
  "outbox (timeout_close hdf s t lrf) = outbox s"
  by (simp_all add: timeout_close_def close_file_fields)


lemma status_cases:
  fixes status :: "string \<rightharpoonup> int"
  obtains
    (absent1) "status ''state'' = None"
  | (absent2) s where "status ''state'' = Some s" "status ''version'' = None"
  | (absent3) s v where "status ''state'' = Some s" "status ''version'' = Some v"
      "status ''process_duration'' = None"
  | (absent4) s v pd where "status ''state'' = Some s" "status ''version'' = Some v"
      "status ''process_duration'' = Some pd" "status ''process_period'' = None"
  | (absent5) s v pd pp where "status ''state'' = Some s" "status ''version'' = Some v"
      "status ''process_duration'' = Some pd" "status ''process_period'' = Some pp"
      "status ''last_received_frame'' = None"
  | (absent6) s v pd pp lrf where "status ''state'' = Some s" "status ''version'' = Some v"
      "status ''process_duration'' = Some pd" "status ''process_period'' = Some pp"
      "status ''last_received_frame'' = Some lrf" "status ''last_processed_frame'' = None"
  | (absent7) s v pd pp lrf lpf where "status ''state'' = Some s" "status ''version'' = Some v"
      "status ''process_duration'' = Some pd" "status ''process_period'' = Some pp"
      "status ''last_received_frame'' = Some lrf" "status ''last_processed_frame'' = Some lpf"
      "status ''time_since_last_message'' = None"
  | (absent8) s v pd pp lrf lpf t where "status ''state'' = Some s" "status ''version'' = Some v"
      "status ''process_duration'' = Some pd" "status ''process_period'' = Some pp"
      "status ''last_received_frame'' = Some lrf" "status ''last_processed_frame'' = Some lpf"
      "status ''time_since_last_message'' = Some t" "status ''current_attenuation'' = None"
  | (complete) s v pd pp lrf lpf t ca where "status ''state'' = Some s" "status ''version'' = Some v"
      "status ''process_duration'' = Some pd" "status ''process_period'' = Some pp"
      "status ''last_received_frame'' = Some lrf" "status ''last_processed_frame'' = Some lpf"
      "status ''time_since_last_message'' = Some t" "status ''current_attenuation'' = Some ca"
  proof (cases "status ''state''")
    case None
    then show ?thesis using absent1  by blast
  next
    case (Some x1)
    note k1 = this
    show ?thesis
    proof (cases "status ''version''")
      case None
      then show ?thesis using absent2 k1 by blast
    next
      case (Some x2)
      note k2 = this
      show ?thesis
      proof (cases "status ''process_duration''")
        case None
        then show ?thesis using absent3 k1 k2 by blast
      next
        case (Some x3)
        note k3 = this
        show ?thesis
        proof (cases "status ''process_period''")
          case None
          then show ?thesis using absent4 k1 k2 k3 by blast
        next
          case (Some x4)
          note k4 = this
          show ?thesis
          proof (cases "status ''last_received_frame''")
            case None
            then show ?thesis using absent5 k1 k2 k3 k4 by blast
          next
            case (Some x5)
            note k5 = this
            show ?thesis
            proof (cases "status ''last_processed_frame''")
              case None
              then show ?thesis using absent6 k1 k2 k3 k4 k5 by blast
            next
              case (Some x6)
              note k6 = this
              show ?thesis
              proof (cases "status ''time_since_last_message''")
                case None
                then show ?thesis using absent7 k1 k2 k3 k4 k5 k6 by blast
              next
                case (Some x7)
                note k7 = this
                show ?thesis
                proof (cases "status ''current_attenuation''")
                  case None
                  then show ?thesis using absent8 k1 k2 k3 k4 k5 k6 k7 by blast
                next
                  case (Some x8)
                  note k8 = this
                  show ?thesis using complete k1 k2 k3 k4 k5 k6 k7 k8 by blast
                qed
              qed
            qed
          qed
        qed
      qed
    qed
  qed

lemma reached_simps:
  "reached status (Suc 0) \<longleftrightarrow> status ''state'' \<noteq> None"
  "reached status 2 \<longleftrightarrow> status ''state'' \<noteq> None \<and> status ''version'' \<noteq> None"
  "reached status 3 \<longleftrightarrow> status ''state'' \<noteq> None \<and> status ''version'' \<noteq> None \<and> status ''process_duration'' \<noteq> None"
  "reached status 4 \<longleftrightarrow> status ''state'' \<noteq> None \<and> status ''version'' \<noteq> None \<and> status ''process_duration'' \<noteq> None \<and> status ''process_period'' \<noteq> None"
  "reached status 5 \<longleftrightarrow> status ''state'' \<noteq> None \<and> status ''version'' \<noteq> None \<and> status ''process_duration'' \<noteq> None \<and> status ''process_period'' \<noteq> None \<and> status ''last_received_frame'' \<noteq> None"
  "reached status 6 \<longleftrightarrow> status ''state'' \<noteq> None \<and> status ''version'' \<noteq> None \<and> status ''process_duration'' \<noteq> None \<and> status ''process_period'' \<noteq> None \<and> status ''last_received_frame'' \<noteq> None \<and> status ''last_processed_frame'' \<noteq> None"
  "reached status 7 \<longleftrightarrow> status ''state'' \<noteq> None \<and> status ''version'' \<noteq> None \<and> status ''process_duration'' \<noteq> None \<and> status ''process_period'' \<noteq> None \<and> status ''last_received_frame'' \<noteq> None \<and> status ''last_processed_frame'' \<noteq> None \<and> status ''time_since_last_message'' \<noteq> None"
  "reached status 8 \<longleftrightarrow> status ''state'' \<noteq> None \<and> status ''version'' \<noteq> None \<and> status ''process_duration'' \<noteq> None \<and> status ''process_period'' \<noteq> None \<and> status ''last_received_frame'' \<noteq> None \<and> status ''last_processed_frame'' \<noteq> None \<and> status ''time_since_last_message'' \<noteq> None \<and> status ''current_attenuation'' \<noteq> None"
  by (simp_all add: reached_def status_keys_def)

lemma first_absent_simps:
  "find (\<lambda>k. status k = None) status_keys =
    (if status ''state'' = None then Some ''state''
     else if status ''version'' = None then Some ''version''
     else if status ''process_duration'' = None then Some ''process_duration''
     else if status ''process_period'' = None then Some ''process_period''
     else if status ''last_received_frame'' = None then Some ''last_received_frame''
     else if status ''last_processed_frame'' = None then Some ''last_processed_frame''
     else if status ''time_since_last_message'' = None then Some ''time_since_last_message''
     else if status ''current_attenuation'' = None then Some ''current_attenuation''
     else None)"
  by (simp add: status_keys_def)

lemma full_status_keys:
  "full_status s lrf t ''state'' = Some s"
  "full_status s lrf t ''version'' = Some 1"
  "full_status s lrf t ''process_duration'' = Some 40"
  "full_status s lrf t ''process_period'' = Some 100"
  "full_status s lrf t ''last_received_frame'' = Some lrf"
  "full_status s lrf t ''last_processed_frame'' = Some lrf"
  "full_status s lrf t ''time_since_last_message'' = Some t"
  "full_status s lrf t ''current_attenuation'' = Some 3"
  by (simp_all add: full_status_def)

subsection \<open>The published state\<close>

text \<open>
  Claim C3. For every status message with state code \<open>s\<close>, whatever else it holds, the
  state that the handler publishes is \<open>s + 16\<close> when \<open>s < 0\<close> and \<open>s\<close> otherwise; the
  witness shows \<open>- 1\<close> published as \<open>15\<close> and \<open>2\<close> as \<open>2\<close>.
\<close>

theorem published_state_wraps_negative:
  "status ''state'' = Some s \<Longrightarrow>
   state (snd (handle_status hdf self status)) = (if s < 0 then s + 16 else s)"
  by (cases status rule: status_cases)
     (simp_all add: handle_status_2 handle_status_3 handle_status_4 handle_status_5
        handle_status_6 handle_status_7 handle_status_8 handle_status_9 timeout_close_fields)

theorem published_state_wraps_negative_witness:
  "full_status (- 1) 5 0 ''state'' = Some (- 1) \<and> full_status 2 5 0 ''state'' = Some 2 \<and>
   state (snd (handle_status flag_adapter recording (full_status (- 1) 5 0))) = 15 \<and>
   state (snd (handle_status flag_adapter recording (full_status 2 5 0))) = 2"
  using published_state_wraps_negative[of "full_status (- 1) 5 0" "- 1" flag_adapter recording]
    published_state_wraps_negative[of "full_status 2 5 0" 2 flag_adapter recording]
  by (simp add: full_status_keys)

subsection \<open>The order of publication\<close>

text \<open>
  Claim C10. The handler reads and publishes the eight fields in the order of
  \<open>status_keys\<close>. It raises \<^verbatim>\<open>KeyError\<close> for the first key that is absent, and no
  exception when none is; each field is published exactly when its key and all keys
  before it are present, and keeps its old value otherwise. So a status that lacks a key
  leaves the fields before it updated and the others not.
\<close>

theorem status_published_in_order:
  "fst (handle_status hdf self status) =
       map_option KeyError (find (\<lambda>k. status k = None) status_keys) \<and>
   state (snd (handle_status hdf self status)) =
       (if reached status 1
        then (if the (status ''state'') < 0 then 16 + the (status ''state'') else the (status ''state''))
        else state self) \<and>
   version (snd (handle_status hdf self status)) =
       (if reached status 2 then py_str (the (status ''version'')) else version self) \<and>
   process_duration (snd (handle_status hdf self status)) =
       (if reached status 3 then the (status ''process_duration'') else process_duration self) \<and>
   process_period (snd (handle_status hdf self status)) =
       (if reached status 4 then the (status ''process_period'') else process_period self) \<and>
   last_frame_received (snd (handle_status hdf self status)) =
       (if reached status 5 then the (status ''last_received_frame'') else last_frame_received self) \<and>
   last_frame_processed (snd (handle_status hdf self status)) =
       (if reached status 6 then the (status ''last_processed_frame'') else last_frame_processed self) \<and>
   time_since_last_frame (snd (handle_status hdf self status)) =
       (if reached status 7 then the (status ''time_since_last_message'') else time_since_last_frame self) \<and>
   current_attenuation (snd (handle_status hdf self status)) =
       (if reached status 8 then the (status ''current_attenuation'') else current_attenuation self)"
proof (cases status rule: status_cases)
  case absent1
  then show ?thesis by (simp add: handle_status_1 first_absent_simps reached_simps)
next
  case absent2
  then show ?thesis by (simp add: handle_status_2 first_absent_simps reached_simps)
next
  case absent3
  then show ?thesis by (simp add: handle_status_3 first_absent_simps reached_simps)
next
  case absent4
  then show ?thesis by (simp add: handle_status_4 first_absent_simps reached_simps)
next
  case absent5
  then show ?thesis by (simp add: handle_status_5 first_absent_simps reached_simps)
next
  case absent6
  then show ?thesis by (simp add: handle_status_6 first_absent_simps reached_simps)
next
  case absent7
  then show ?thesis by (simp add: handle_status_7 first_absent_simps reached_simps)
next
  case absent8
  then show ?thesis
    by (simp add: handle_status_8 first_absent_simps reached_simps timeout_close_fields)
next
  case complete
  then show ?thesis
    by (simp add: handle_status_9 first_absent_simps reached_simps timeout_close_fields)
qed

theorem status_published_in_order_witness:
  "fst (handle_status flag_adapter idle_wrapper [''state'' \<mapsto> - 1]) = Some (KeyError ''version'') \<and>
   state (snd (handle_status flag_adapter idle_wrapper [''state'' \<mapsto> - 1])) = 15 \<and>
   state idle_wrapper = 0 \<and>
   version (snd (handle_status flag_adapter idle_wrapper [''state'' \<mapsto> - 1])) = version idle_wrapper \<and>
   current_attenuation (snd (handle_status flag_adapter idle_wrapper [''state'' \<mapsto> - 1]))
     = current_attenuation idle_wrapper"
  using status_published_in_order[of flag_adapter idle_wrapper "[''state'' \<mapsto> - 1]"]
  by (simp add: first_absent_simps reached_simps idle_wrapper_def)

subsection \<open>Closing on timeout\<close>

text \<open>
  When all eight keys are present and the wrapper is connected, the handler returns
  without raising, and it closes the file exactly when the time since the last frame is
  above the timeout and \<^verbatim>\<open>last_received_frame\<close> is above \<open>1\<close>.
\<close>

lemma handle_status_closes:
  assumes "status ''state'' = Some s" "status ''version'' = Some v"
    "status ''process_duration'' = Some pd" "status ''process_period'' = Some pp"
    "status ''last_received_frame'' = Some lrf" "status ''last_processed_frame'' = Some lpf"
    "status ''time_since_last_message'' = Some t" "status ''current_attenuation'' = Some ca"
    and "connected self"
  shows "fst (handle_status hdf self status) = None \<and>
         h5f (snd (handle_status hdf self status)) =
           (if t > timeout_rbv self \<and> lrf > 1 then hdf_close_file hdf (h5f self) else h5f self)"
  using assms(9)
  by (simp add: handle_status_9[OF assms(1-8)] timeout_close_def close_file_def if_connected_def
        close_file_body_def Let_def)

text \<open>
  Claim C2, at the input where the code departs from it. The wrapper is connected, a
  file is open, the timeout is \<open>3\<close> and the status reports \<open>10\<close> seconds since the last
  frame. With \<^verbatim>\<open>last_received_frame = 1\<close> (a frame has been received) the handler
  returns without closing the file; with \<^verbatim>\<open>last_received_frame = 2\<close> it closes it.
\<close>

theorem timeout_after_one_frame_keeps_file_open:
  "connected recording \<and> hdf_file_open flag_adapter (h5f recording) \<and>
   timeout_rbv recording < 10 \<and>
   fst (handle_status flag_adapter recording (full_status 2 1 10)) = None \<and>
   hdf_file_open flag_adapter (h5f (snd (handle_status flag_adapter recording (full_status 2 1 10)))) \<and>
   \<not> hdf_file_open flag_adapter (h5f (snd (handle_status flag_adapter recording (full_status 2 2 10))))"
  by (simp add: full_status_keys handle_status_9 timeout_close_def close_file_def if_connected_def
        close_file_body_def recording_def idle_wrapper_def flag_adapter_def Let_def)

section \<open>Properties of the monitor loops\<close>

lemma json_loads_Malformed: "json_loads Malformed = Inl JSONDecodeError"
  by (simp add: json_loads_def)

lemma json_loads_Document: "json_loads (Document d) = Inr d"
  by (simp add: json_loads_def)

text \<open>
  Claim C4 fails on the code: neither loop guards \<^verbatim>\<open>json.loads\<close>. On the command link
  and on the event link an unparseable message ends the loop with
  \<^verbatim>\<open>JSONDecodeError\<close>; the message after it is never read, and nothing is printed.
\<close>

theorem malformed_message_ends_monitor:
  "fst (monitor_command_stream flag_adapter (MonTop, idle_wrapper) [LinkUp (Some Malformed), LinkUp None])
     = Some JSONDecodeError \<and>
   stdout (snd (snd (monitor_command_stream flag_adapter (MonTop, idle_wrapper)
     [LinkUp (Some Malformed), LinkUp None]))) = [] \<and>
   fst (monitor_event_stream flag_adapter (MonTop, recording) [LinkUp (Some Malformed), LinkUp None])
     = Some JSONDecodeError \<and>
   stdout (snd (snd (monitor_event_stream flag_adapter (MonTop, recording)
     [LinkUp (Some Malformed), LinkUp None]))) = []"
  by (simp add: json_loads_Malformed monitor_command_step_def command_response_def monitor_event_step_def
        event_response_def idle_wrapper_def recording_def)

text \<open>
  Claim C4 as amended. In either loop an unparseable message makes \<^verbatim>\<open>json.loads\<close>
  raise \<^verbatim>\<open>JSONDecodeError\<close>, which ends the loop whatever follows; the object is as it
  was (but for the line printed on reconnection). What the loops pass over without
  raising is an absent message (\<^verbatim>\<open>None\<close>) and a parsed object that lacks the key they
  route on.
\<close>

theorem unparseable_message_raises:
  "monitor_command_stream hdf (pc, self) (LinkUp (Some Malformed) # rest) =
     (Some JSONDecodeError, MonTop,
      case pc of MonTop \<Rightarrow> self | MonWait \<Rightarrow> print ''- Command stream (re)connected.'' self) \<and>
   monitor_event_stream hdf (pc, self) (LinkUp (Some Malformed) # rest) =
     (Some JSONDecodeError, MonTop,
      case pc of MonTop \<Rightarrow> self | MonWait \<Rightarrow> print ''- Event stream (re)connected.'' self) \<and>
   monitor_command_stream hdf (MonTop, self) (LinkUp None # rest) =
     monitor_command_stream hdf (MonTop, self) rest \<and>
   monitor_event_stream hdf (MonTop, self) (LinkUp None # rest) =
     monitor_event_stream hdf (MonTop, self) rest \<and>
   (d ''status'' = None \<longrightarrow>
      monitor_command_stream hdf (MonTop, self) (LinkUp (Some (Document d)) # rest) =
      monitor_command_stream hdf (MonTop, self) rest) \<and>
   (d ''frame_number'' = None \<longrightarrow>
      monitor_event_stream hdf (MonTop, self) (LinkUp (Some (Document d)) # rest) =
      monitor_event_stream hdf (MonTop, self) rest)"
  by (cases pc)
     (simp_all add: json_loads_Malformed json_loads_Document monitor_command_step_def command_response_def monitor_event_step_def
        event_response_def)

theorem unparseable_message_raises_witness:
  "fst (monitor_command_stream flag_adapter (MonWait, idle_wrapper)
          (LinkUp (Some Malformed) # [LinkUp None])) = Some JSONDecodeError \<and>
   fst (monitor_event_stream flag_adapter (MonTop, recording)
          (LinkUp (Some Malformed) # [LinkUp None])) = Some JSONDecodeError \<and>
   monitor_command_stream flag_adapter (MonTop, idle_wrapper)
          (LinkUp (Some (Document [''reply'' \<mapsto> JNum 0])) # []) = (None, MonTop, idle_wrapper) \<and>
   monitor_event_stream flag_adapter (MonTop, recording)
          (LinkUp (Some (Document [''reply'' \<mapsto> JNum 0])) # []) = (None, MonTop, recording)"
  using unparseable_message_raises[of flag_adapter MonWait idle_wrapper "[LinkUp None]" "[''reply'' \<mapsto> JNum 0]"]
    unparseable_message_raises[of flag_adapter MonTop recording "[LinkUp None]" "[''reply'' \<mapsto> JNum 0]"]
    unparseable_message_raises[of flag_adapter MonTop idle_wrapper "[]" "[''reply'' \<mapsto> JNum 0]"]
    unparseable_message_raises[of flag_adapter MonTop recording "[]" "[''reply'' \<mapsto> JNum 0]"]
  by simp

section \<open>Properties of the connection flag\<close>

lemma handle_status_connected:
  "connected (snd (handle_status hdf self status)) = connected self"
  by (cases status rule: status_cases)
     (simp_all add: handle_status_1 handle_status_2 handle_status_3 handle_status_4 handle_status_5
        handle_status_6 handle_status_7 handle_status_8 handle_status_9 timeout_close_fields)

lemma handle_status_connectedD:
  "handle_status hdf self status = (e, self') \<Longrightarrow> connected self' = connected self"
  using handle_status_connected[of hdf self status] by simp

lemma command_response_connected:
  "connected self \<Longrightarrow> connected (snd (command_response hdf self resp))"
  by (auto simp: command_response_def Let_def dest: handle_status_connectedD
        split: option.splits sum.splits jvalue.splits prod.splits)

lemma command_response_status:
  "d ''status'' = Some v \<Longrightarrow> connected (snd (command_response hdf self (Some (Document d))))"
  by (cases "connected self")
     (auto simp: json_loads_Document command_response_def Let_def dest: handle_status_connectedD
        split: option.splits sum.splits jvalue.splits prod.splits)

lemma event_response_connected:
  "connected (snd (event_response hdf self resp)) = connected self"
  by (auto simp: event_response_def print_def split: option.splits sum.splits prod.splits py_error.splits)

text \<open>
  Claim C5 fails on the code: the command monitor, not the poller, writes the flag when a
  status reply arrives. From a wrapper that is not connected, one pass of
  \<^verbatim>\<open>monitor_command_stream\<close> over a status message leaves it connected.
\<close>

theorem command_monitor_sets_connected:
  "\<not> connected idle_wrapper \<and>
   connected (snd (snd (monitor_command_step flag_adapter
      (LinkUp (Some (Document [''status'' \<mapsto> JDict (full_status 2 0 0)]))) (MonTop, idle_wrapper))))"
  by (simp add: json_loads_Document full_status_keys monitor_command_step_def command_response_def handle_status_9
        timeout_close_fields idle_wrapper_def split: prod.splits)

text \<open>
  Claim C5 as amended. The poller is the only one of the three loops that sets the flag
  to disconnected, and it never sets it to connected: a pass of \<^verbatim>\<open>_query_status\<close>
  that leaves the wrapper connected found it connected, and a pass that finds the link
  running and no reply to its last request leaves it disconnected. The command monitor
  is the one that sets the flag to connected, on every message with a status, and it
  never sets it to disconnected. The event monitor and the status handler leave it as
  it is.
\<close>

theorem connected_flag_writers:
  "(connected (snd (query_status_step running (pc, self))) \<longrightarrow> connected self) \<and>
   (running \<and> \<not> status_recv self \<longrightarrow> \<not> connected (snd (query_status_step running (PollTop, self)))) \<and>
   (connected self \<longrightarrow> connected (snd (snd (monitor_command_step hdf obs (mpc, self))))) \<and>
   (d ''status'' = Some v \<longrightarrow>
      connected (snd (snd (monitor_command_step hdf (LinkUp (Some (Document d))) (mpc, self))))) \<and>
   connected (snd (snd (monitor_event_step hdf obs (mpc, self)))) = connected self \<and>
   connected (snd (handle_status hdf self status)) = connected self"
proof (intro conjI impI)
  show "connected self" if "connected (snd (query_status_step running (pc, self)))"
    using that
    by (cases pc) (auto simp: query_status_step_def req_status_def send_message_def print_def Let_def split: if_splits)
  show "\<not> connected (snd (query_status_step running (PollTop, self)))" if "running \<and> \<not> status_recv self"
    using that by (simp add: query_status_step_def)
  show "connected (snd (snd (monitor_command_step hdf obs (mpc, self))))" if c: "connected self"
  proof -
    have p: "connected (print l self)" for l using c by (simp add: print_def)
    show ?thesis
      using command_response_connected[OF c, of hdf] command_response_connected[OF p, of hdf]
      by (cases mpc; cases obs) (simp_all add: monitor_command_step_def c p case_prod_beta)
  qed
  show "connected (snd (snd (monitor_command_step hdf (LinkUp (Some (Document d))) (mpc, self))))"
    if "d ''status'' = Some v"
    using that command_response_status[of d v hdf self]
      command_response_status[of d v hdf "print ''- Command stream (re)connected.'' self"]
    by (cases mpc) (simp_all add: monitor_command_step_def case_prod_beta)
  show "connected (snd (snd (monitor_event_step hdf obs (mpc, self)))) = connected self"
    using event_response_connected[of hdf]
    by (cases mpc; cases obs) (simp_all add: monitor_event_step_def print_def case_prod_beta)
  show "connected (snd (handle_status hdf self status)) = connected self"
    by (rule handle_status_connected)
qed

theorem connected_flag_writers_witness:
  "\<not> connected (snd (query_status_step True (PollTop, recording\<lparr>status_recv := False\<rparr>))) \<and>
   connected (snd (snd (monitor_command_step flag_adapter
      (LinkUp (Some (Document [''status'' \<mapsto> JNum 0]))) (MonTop, idle_wrapper)))) \<and>
   connected (snd (snd (monitor_command_step flag_adapter LinkDown (MonTop, recording)))) \<and>
   connected (snd (snd (monitor_event_step flag_adapter LinkDown (MonTop, recording)))) \<and>
   connected (snd (handle_status flag_adapter recording (full_status 2 5 10)))"
proof -
  have c: "connected recording" by (simp add: recording_def)
  note a = connected_flag_writers[of True PollTop "recording\<lparr>status_recv := False\<rparr>"
      flag_adapter LinkDown MonTop "[''status'' \<mapsto> JNum 0]" "JNum 0" "full_status 2 5 10"]
  note b = connected_flag_writers[of True PollTop idle_wrapper
      flag_adapter LinkDown MonTop "[''status'' \<mapsto> JNum 0]" "JNum 0" "full_status 2 5 10"]
  note r = connected_flag_writers[of True PollTop recording
      flag_adapter LinkDown MonTop "[''status'' \<mapsto> JNum 0]" "JNum 0" "full_status 2 5 10"]
  show ?thesis using a b r c by (simp add: full_status_keys)
qed

section \<open>Properties of the connection guard\<close>

text \<open>
  A function under \<^verbatim>\<open>@_if_connected\<close>, called while the wrapper is not connected, prints
  one line, changes nothing else and returns \<^verbatim>\<open>True\<close>.
\<close>

lemma if_connected_disconnected:
  "\<not> connected self \<Longrightarrow>
   if_connected func self arg =
     (Inr (RBool True), print ''Not connected to device. Try again once connection resumed.'' self)"
  by (simp add: if_connected_def)

text \<open>
  \<^verbatim>\<open>_set_shutter_pos\<close> sends the closed position whether or not the wrapper is connected.
\<close>

lemma write_text_outbox:
  "write_text self path content = Inr self' \<Longrightarrow> outbox self' = outbox self"
  by (auto simp: write_text_def Let_def split: if_splits list.splits)

lemma write_autosave_outbox: "outbox (snd (write_autosave self)) = outbox self"
  by (auto simp: write_autosave_def print_def Let_def dest!: write_text_outbox
        split: sum.splits list.splits)

lemma set_shutter_pos_sends:
  "outbox (snd (set_shutter_pos self val SHUTTER_CLOSED)) =
     outbox self @ [Configure ''shutter_closed_position'' val]"
  by (simp add: set_shutter_pos_def set_shutter_def if_connected_def set_shutter_body_def
        configure_param_def send_message_def print_def Let_def case_prod_beta
        write_autosave_outbox split: option.splits)

text \<open>
  Claim C6, at the input where the code departs from it. While the wrapper is not
  connected, the callback of \<^verbatim>\<open>SHUTTER:CLOSED\<close> with position \<open>500\<close> hands a
  \<^verbatim>\<open>configure\<close> message to the command link, changes the autosave dictionary and
  rewrites the autosave file. A guarded operation, \<^verbatim>\<open>_set_timeout\<close>, is shown beside
  it: it prints the warning, returns \<^verbatim>\<open>True\<close> and leaves the rest as it was.
\<close>

theorem shutter_position_sent_while_disconnected:
  "\<not> connected idle_wrapper \<and> outbox idle_wrapper = [] \<and> autosave_dict idle_wrapper = [] \<and>
   fst (set_shutter_pos idle_wrapper 500 SHUTTER_CLOSED) = Inr RNone \<and>
   outbox (snd (set_shutter_pos idle_wrapper 500 SHUTTER_CLOSED)) =
     [Configure ''shutter_closed_position'' 500] \<and>
   autosave_dict (snd (set_shutter_pos idle_wrapper 500 SHUTTER_CLOSED)) =
     [(''PFC:SHUTTER:CLOSED'', 500)] \<and>
   disk (snd (set_shutter_pos idle_wrapper 500 SHUTTER_CLOSED)) ''/ioc/autosave.txt'' =
     Some ''PFC:SHUTTER:CLOSED 500'' \<and>
   set_timeout idle_wrapper 5 =
     (Inr (RBool True),
      idle_wrapper\<lparr>stdout := [''Not connected to device. Try again once connection resumed.'']\<rparr>)"
  by (simp add: set_shutter_pos_def set_shutter_def if_connected_def set_shutter_body_def
        configure_param_def send_message_def write_autosave_def write_text_def print_def Let_def
        idle_wrapper_def SHUTTER_CLOSED_def rsplit1_def py_str_def set_timeout_def)

end
